theory Spec2Isabelle
  imports Complex_Main "HOL-Library.Log_Nat"
begin

section \<open>JavaScript values used by the dashboard\<close>

text \<open>
  Identifiers are JavaScript numbers holding database ids; a selection is
  \<open>number | null\<close>, modelled as \<open>int option\<close>.  The handlers test
  selections by truthiness (\<open>if (!schoolId)\<close>, \<open>if (selectedChapterId)\<close>):
  \<open>null\<close> and \<open>0\<close> are falsy, every other number is truthy.
\<close>

definition truthy :: "int option \<Rightarrow> bool" where
  "truthy x = (case x of None \<Rightarrow> False | Some n \<Rightarrow> n \<noteq> 0)"

text \<open>Truthiness of a \<open>string | null\<close> value: \<open>null\<close> and the empty string are falsy.\<close>

definition truthy_str :: "string option \<Rightarrow> bool" where
  "truthy_str x = (case x of None \<Rightarrow> False | Some s \<Rightarrow> s \<noteq> [])"

text \<open>\<open>x || ''\<close> on an optional string and \<open>x || 0\<close> on an optional number.\<close>

definition or_empty :: "string option \<Rightarrow> string" where
  "or_empty x = (case x of None \<Rightarrow> [] | Some s \<Rightarrow> s)"

definition or_zero :: "int option \<Rightarrow> int" where
  "or_zero x = (case x of None \<Rightarrow> 0 | Some n \<Rightarrow> n)"

text \<open>\<open>x || []\<close> on a field of a response object that may be absent.\<close>

definition or_nil :: "'a list option \<Rightarrow> 'a list" where
  "or_nil x = (case x of None \<Rightarrow> [] | Some xs \<Rightarrow> xs)"

text \<open>
  A name field of a row read from JSON: the field may be absent from the object
  (reading it gives \<open>undefined\<close>), hold \<open>null\<close> (a SQL NULL), or hold a string.
  Interpolated into a template literal these print as \<open>undefined\<close>, as
  \<open>null\<close>, and as the string.
\<close>

datatype name_field = Absent | Null | Name string

definition interpolate :: "name_field \<Rightarrow> string" where
  "interpolate x =
     (case x of Absent \<Rightarrow> ''undefined'' | Null \<Rightarrow> ''null'' | Name s \<Rightarrow> s)"

text \<open>The outcome of an awaited promise: the value, or the message of the thrown error.\<close>

datatype 'a awaited = Resolved 'a | Rejected string

section \<open>Data model (types.ts and the rows returned by the API routes)\<close>

text \<open>One row of \<open>/api/student-data\<close>: a lesson of the selected student.\<close>

record lesson =
  lesson_id :: int
  lesson_name :: string
  is_required :: bool
  chapter_id :: int
  chapter_name :: string
  course_id :: int
  course_name :: string
  collection_id :: int
  collection_name :: string
  curriculum_id :: int
  curriculum_name :: string
  engagement_date :: "string option"
  completion_date :: "string option"

text \<open>
  A row of one of the materialized aggregate views.  The source reads the rows
  untyped (\<open>any[]\<close> for the cohort tables), so one record carries every field
  the resolver touches.  For an id or a count, \<open>None\<close> stands for a field that
  is absent or null: the resolver compares an id with \<open>===\<close> against a selected
  number and reads a count through \<open>|| 0\<close>, and neither tells the two apart.
  A name is interpolated into the title, which does tell them apart.
\<close>

record aggregate_row =
  agg_school_name :: name_field
  agg_cohort_id :: "int option"
  agg_cohort_name :: name_field
  agg_curriculum_id :: "int option"
  agg_curriculum_name :: name_field
  agg_collection_id :: "int option"
  agg_collection_name :: name_field
  agg_course_id :: "int option"
  agg_course_name :: name_field
  agg_chapter_id :: "int option"
  agg_chapter_name :: name_field
  total_lessons_expected :: "int option"
  total_lessons_completed :: "int option"
  required_lessons_expected :: "int option"
  required_lessons_completed :: "int option"

record student_aggregate =
  sa_student_id :: int
  sa_student_email :: "string option"
  sa_student_first :: "string option"
  sa_student_last :: "string option"
  sa_school_id :: int
  sa_cohort_id :: "int option"

record student =
  student_id :: int
  student_email :: string
  student_first :: string
  student_last :: string
  school_id :: int

record cohort =
  cohort_id :: int
  cohort_name :: string

record faculty_user =
  user_id :: int
  email :: string
  role :: string

text \<open>The response of \<open>/api/school-aggregates\<close> as \<open>handleSchoolSelection\<close> reads it.\<close>

record school_bundle =
  schoolAggregate :: "aggregate_row list option"
  curriculumAggregate :: "aggregate_row list option"
  schoolCollectionAggregate :: "aggregate_row list option"
  schoolCourseAggregate :: "aggregate_row list option"
  schoolChapterAggregate :: "aggregate_row list option"
  studentAggregate :: "student_aggregate list option"
  schoolStudentAggregate :: "student_aggregate list option"
  cohortAggregate :: "aggregate_row list option"
  cohortCurriculumAggregate :: "aggregate_row list option"
  cohortCollectionAggregate :: "aggregate_row list option"
  cohortCourseAggregate :: "aggregate_row list option"
  cohortChapterAggregate :: "aggregate_row list option"
  cohortStudentAggregate :: "student_aggregate list option"

text \<open>The shape handed to ProgressChart.\<close>

record metrics =
  totalLessons :: int
  totalCompleted :: int
  requiredLessons :: int
  requiredCompleted :: int
  title :: string

section \<open>The state held by App.tsx\<close>

record app_state =
  currentUser :: "faculty_user option"
  selectedSchoolId :: "int option"
  selectedCohortId :: "int option"
  selectedStudentId :: "int option"
  individualStudentData :: "lesson list option"
  schoolAggregates :: "aggregate_row list"
  curriculumAggregates :: "aggregate_row list"
  collectionAggregates :: "aggregate_row list"
  courseAggregates :: "aggregate_row list"
  chapterAggregates :: "aggregate_row list"
  studentAggregates :: "student_aggregate list"
  studentsForSelector :: "student list"
  cohortAggregates :: "aggregate_row list"
  cohortCurriculumAggregates :: "aggregate_row list"
  cohortCollectionAggregates :: "aggregate_row list"
  cohortCourseAggregates :: "aggregate_row list"
  cohortChapterAggregates :: "aggregate_row list"
  cohortStudentAggregates :: "student_aggregate list"
  loading :: bool
  studentLoading :: bool
  error :: "string option"
  selectedCurriculumId :: "int option"
  selectedCollectionId :: "int option"
  selectedCourseId :: "int option"
  selectedChapterId :: "int option"
  cohorts :: "cohort list"

text \<open>The initial values of the \<open>useState\<close> hooks.\<close>

definition initial_state :: app_state where
  "initial_state =
     \<lparr> currentUser = None, selectedSchoolId = None, selectedCohortId = None,
       selectedStudentId = None, individualStudentData = None,
       schoolAggregates = [], curriculumAggregates = [], collectionAggregates = [],
       courseAggregates = [], chapterAggregates = [], studentAggregates = [],
       studentsForSelector = [],
       cohortAggregates = [], cohortCurriculumAggregates = [],
       cohortCollectionAggregates = [], cohortCourseAggregates = [],
       cohortChapterAggregates = [], cohortStudentAggregates = [],
       loading = False, studentLoading = False, error = None,
       selectedCurriculumId = None, selectedCollectionId = None,
       selectedCourseId = None, selectedChapterId = None, cohorts = [] \<rparr>"

section \<open>Curriculum filter handlers\<close>

definition handleCurriculumSelection :: "int option \<Rightarrow> app_state \<Rightarrow> app_state" where
  "handleCurriculumSelection curriculumId st =
     st\<lparr> selectedCurriculumId := curriculumId,
         selectedCollectionId := None,
         selectedCourseId := None,
         selectedChapterId := None \<rparr>"

definition handleCollectionSelection :: "int option \<Rightarrow> app_state \<Rightarrow> app_state" where
  "handleCollectionSelection collectionId st =
     st\<lparr> selectedCollectionId := collectionId,
         selectedCourseId := None,
         selectedChapterId := None \<rparr>"

definition handleCourseSelection :: "int option \<Rightarrow> app_state \<Rightarrow> app_state" where
  "handleCourseSelection courseId st =
     st\<lparr> selectedCourseId := courseId,
         selectedChapterId := None \<rparr>"

definition handleChapterSelection :: "int option \<Rightarrow> app_state \<Rightarrow> app_state" where
  "handleChapterSelection chapterId st = st\<lparr> selectedChapterId := chapterId \<rparr>"

section \<open>Entity handlers: school, cohort, student\<close>

text \<open>The row-to-Student mapping used for the student selector.\<close>

definition student_of_aggregate :: "student_aggregate \<Rightarrow> student" where
  "student_of_aggregate studentAgg =
     \<lparr> student_id = sa_student_id studentAgg,
       student_email = or_empty (sa_student_email studentAgg),
       student_first = or_empty (sa_student_first studentAgg),
       student_last = or_empty (sa_student_last studentAgg),
       school_id = sa_school_id studentAgg \<rparr>"

text \<open>
  \<open>handleSchoolSelection\<close>.  The two awaited calls are inputs of the model:
  \<open>canAccess\<close> is the answer of \<open>authService.canAccessSchool(schoolId)\<close>
  (consulted only for a logged-in user who is not a supaadmin), and \<open>response\<close> is
  the outcome of the \<open>Promise.all\<close> of the aggregate bundle and the cohort list.
  The handler never resets \<open>loading\<close>, and it touches none of the four
  curriculum filters.
\<close>

definition access_refused :: "faculty_user option \<Rightarrow> bool \<Rightarrow> bool" where
  "access_refused user canAccess =
     (case user of None \<Rightarrow> False
      | Some u \<Rightarrow> \<not> (role u = ''supaadmin'') \<and> \<not> canAccess)"

definition store_bundle ::
  "school_bundle \<Rightarrow> cohort list option \<Rightarrow> app_state \<Rightarrow> app_state" where
  "store_bundle millenniumFalcon cohortsData st =
     st\<lparr> schoolAggregates := or_nil (schoolAggregate millenniumFalcon),
         curriculumAggregates := or_nil (curriculumAggregate millenniumFalcon),
         collectionAggregates := or_nil (schoolCollectionAggregate millenniumFalcon),
         courseAggregates := or_nil (schoolCourseAggregate millenniumFalcon),
         chapterAggregates := or_nil (schoolChapterAggregate millenniumFalcon),
         studentAggregates := or_nil (studentAggregate millenniumFalcon),
         cohorts := or_nil cohortsData,
         cohortAggregates := or_nil (cohortAggregate millenniumFalcon),
         cohortCurriculumAggregates := or_nil (cohortCurriculumAggregate millenniumFalcon),
         cohortCollectionAggregates := or_nil (cohortCollectionAggregate millenniumFalcon),
         cohortCourseAggregates := or_nil (cohortCourseAggregate millenniumFalcon),
         cohortChapterAggregates := or_nil (cohortChapterAggregate millenniumFalcon),
         cohortStudentAggregates := or_nil (cohortStudentAggregate millenniumFalcon),
         studentsForSelector :=
           map student_of_aggregate (or_nil (schoolStudentAggregate millenniumFalcon)) \<rparr>"

definition handleSchoolSelection ::
  "bool \<Rightarrow> (school_bundle \<times> cohort list option) awaited \<Rightarrow> int option \<Rightarrow>
   app_state \<Rightarrow> app_state" where
  "handleSchoolSelection canAccess response schoolId st =
     (if \<not> truthy schoolId then
        st\<lparr> selectedSchoolId := None,
            selectedCohortId := None,
            cohorts := [],
            schoolAggregates := [],
            curriculumAggregates := [],
            collectionAggregates := [],
            courseAggregates := [],
            chapterAggregates := [],
            studentAggregates := [],
            studentsForSelector := [],
            selectedStudentId := None,
            individualStudentData := None \<rparr>
      else if access_refused (currentUser st) canAccess then
        st\<lparr> error := Some ''You do not have permission to access this school'' \<rparr>
      else
        (let st1 = st\<lparr> loading := True,
                        error := None,
                        selectedCohortId := None,
                        selectedStudentId := None,
                        individualStudentData := None,
                        selectedSchoolId := schoolId \<rparr>
         in case response of
              Resolved (millenniumFalcon, cohortsData) \<Rightarrow>
                store_bundle millenniumFalcon cohortsData st1
            | Rejected message \<Rightarrow>
                st1\<lparr> error := Some (''Failed to load school data: '' @ message) \<rparr>))"

definition handleCohortSelection :: "int option \<Rightarrow> app_state \<Rightarrow> app_state" where
  "handleCohortSelection cohortId st =
     (if \<not> truthy cohortId then
        (let st1 = st\<lparr> selectedCohortId := None,
                        selectedStudentId := None,
                        individualStudentData := None \<rparr>
         in if truthy (selectedSchoolId st) \<and> length (studentAggregates st) > 0
            then st1\<lparr> studentsForSelector :=
                         map student_of_aggregate (studentAggregates st) \<rparr>
            else st1)
      else
        st\<lparr> selectedCohortId := cohortId,
            selectedStudentId := None,
            individualStudentData := None,
            studentsForSelector :=
              map student_of_aggregate
                (filter (\<lambda>agg. sa_cohort_id agg = cohortId) (cohortStudentAggregates st)) \<rparr>)"

text \<open>
  \<open>handleStudentSelection\<close> runs in two parts.  The part before the \<open>await\<close>
  runs when the handler is called; the part after it runs when the response of
  \<open>getIndividualStudentData\<close> arrives.  The continuation stores the response
  whatever the selection is by then: it reads no state.
\<close>

definition handleStudentSelection_begin :: "int option \<Rightarrow> app_state \<Rightarrow> app_state" where
  "handleStudentSelection_begin studentId st =
     (if \<not> truthy studentId then
        st\<lparr> selectedStudentId := None, individualStudentData := None \<rparr>
      else
        st\<lparr> studentLoading := True, error := None, selectedStudentId := studentId \<rparr>)"

definition handleStudentSelection_settle ::
  "lesson list awaited \<Rightarrow> app_state \<Rightarrow> app_state" where
  "handleStudentSelection_settle response st =
     (case response of
        Resolved fetched \<Rightarrow>
          st\<lparr> individualStudentData := Some fetched, studentLoading := False \<rparr>
      | Rejected message \<Rightarrow>
          st\<lparr> error := Some (''Failed to load student data: '' @ message),
              studentLoading := False \<rparr>)"

text \<open>The whole handler, when nothing else happens between the call and the response.\<close>

definition handleStudentSelection ::
  "lesson list awaited \<Rightarrow> int option \<Rightarrow> app_state \<Rightarrow> app_state" where
  "handleStudentSelection response studentId st =
     (if \<not> truthy studentId then handleStudentSelection_begin studentId st
      else handleStudentSelection_settle response (handleStudentSelection_begin studentId st))"

subsection \<open>Sequences of handler calls\<close>

datatype call =
    SelectSchool "int option" bool "(school_bundle \<times> cohort list option) awaited"
  | SelectCohort "int option"
  | SelectStudent "int option" "lesson list awaited"
  | SelectCurriculum "int option"
  | SelectCollection "int option"
  | SelectCourse "int option"
  | SelectChapter "int option"

fun apply_call :: "call \<Rightarrow> app_state \<Rightarrow> app_state" where
  "apply_call (SelectSchool schoolId canAccess response) st =
     handleSchoolSelection canAccess response schoolId st"
| "apply_call (SelectCohort cohortId) st = handleCohortSelection cohortId st"
| "apply_call (SelectStudent studentId response) st =
     handleStudentSelection response studentId st"
| "apply_call (SelectCurriculum curriculumId) st = handleCurriculumSelection curriculumId st"
| "apply_call (SelectCollection collectionId) st = handleCollectionSelection collectionId st"
| "apply_call (SelectCourse courseId) st = handleCourseSelection courseId st"
| "apply_call (SelectChapter chapterId) st = handleChapterSelection chapterId st"

text \<open>The states reached after each call of a sequence, in order.\<close>

fun states_after :: "app_state \<Rightarrow> call list \<Rightarrow> app_state list" where
  "states_after st [] = []"
| "states_after st (c # cs) = apply_call c st # states_after (apply_call c st) cs"

text \<open>The cascade invariant of the selection state.\<close>

definition cascade_ok :: "app_state \<Rightarrow> bool" where
  "cascade_ok st \<longleftrightarrow>
     (selectedStudentId st \<noteq> None \<longrightarrow> selectedSchoolId st \<noteq> None) \<and>
     (selectedCohortId st \<noteq> None \<longrightarrow> selectedSchoolId st \<noteq> None) \<and>
     (selectedChapterId st \<noteq> None \<longrightarrow> selectedCourseId st \<noteq> None) \<and>
     (selectedCourseId st \<noteq> None \<longrightarrow> selectedCollectionId st \<noteq> None) \<and>
     (selectedCollectionId st \<noteq> None \<longrightarrow> selectedCurriculumId st \<noteq> None)"

text \<open>
  What the selectors allow: the cohort and student selectors are rendered with
  \<open>disabled={!selectedSchoolId}\<close>, and the collection, course and chapter
  selectors with \<open>disabled\<close> set while the level above is falsy.  A call is
  \<open>parent_selected\<close> when it either clears its level or is made while the level
  above holds an id.  The cohort and student handlers clear their level on a
  falsy id (null or 0); the filter handlers store whatever id they are given.
\<close>

fun parent_selected :: "call \<Rightarrow> app_state \<Rightarrow> bool" where
  "parent_selected (SelectSchool schoolId canAccess response) st = True"
| "parent_selected (SelectCohort cohortId) st =
     (truthy cohortId \<longrightarrow> selectedSchoolId st \<noteq> None)"
| "parent_selected (SelectStudent studentId response) st =
     (truthy studentId \<longrightarrow> selectedSchoolId st \<noteq> None)"
| "parent_selected (SelectCurriculum curriculumId) st = True"
| "parent_selected (SelectCollection collectionId) st =
     (collectionId \<noteq> None \<longrightarrow> selectedCurriculumId st \<noteq> None)"
| "parent_selected (SelectCourse courseId) st =
     (courseId \<noteq> None \<longrightarrow> selectedCollectionId st \<noteq> None)"
| "parent_selected (SelectChapter chapterId) st =
     (chapterId \<noteq> None \<longrightarrow> selectedCourseId st \<noteq> None)"

fun all_parent_selected :: "app_state \<Rightarrow> call list \<Rightarrow> bool" where
  "all_parent_selected st [] = True"
| "all_parent_selected st (c # cs) =
     (parent_selected c st \<and> all_parent_selected (apply_call c st) cs)"

subsection \<open>Student selections and late responses\<close>

text \<open>
  An execution is a sequence of events: the user selects a student (the part of
  \<open>handleStudentSelection\<close> before the \<open>await\<close> runs), or the response of the
  fetch issued for some student arrives (the part after the \<open>await\<close> runs).  A
  response is labelled with the student it was requested for; the handler does
  not look at the label.
\<close>

datatype event =
    Select "int option"
  | Arrive int "lesson list awaited"

fun step :: "event \<Rightarrow> app_state \<Rightarrow> app_state" where
  "step (Select studentId) st = handleStudentSelection_begin studentId st"
| "step (Arrive requestedFor response) st = handleStudentSelection_settle response st"

fun run :: "event list \<Rightarrow> app_state \<Rightarrow> app_state" where
  "run [] st = st"
| "run (e # es) st = run es (step e st)"

section \<open>Per-student aggregation\<close>

subsection \<open>Numbers in template literals\<close>

text \<open>
  The grouping keys are template literals \<open>`${id}-${name}`\<close>.  An integer id
  prints as its decimal digits, with a leading minus sign when negative (the
  exponent notation JavaScript uses from \<open>1e21\<close> on is beyond any id).
\<close>

definition digit_char :: "nat \<Rightarrow> char" where
  "digit_char d = char_of (48 + d)"

fun digits :: "nat \<Rightarrow> string" where
  "digits n = (if n < 10 then [digit_char n] else digits (n div 10) @ [digit_char (n mod 10)])"

declare digits.simps [simp del]

definition number_to_string :: "int \<Rightarrow> string" where
  "number_to_string n =
     (if n < 0 then CHR ''-'' # digits (nat (- n)) else digits (nat n))"

subsection \<open>The three grouping maps\<close>

record group_aggregate =
  group_id :: int
  group_name :: string
  total_lessons :: int
  completed_lessons :: int

text \<open>
  A JavaScript \<open>Map\<close> with string keys, in insertion order: \<open>set\<close> on a new key
  appends, \<open>set\<close> on a held key replaces the value in place, and
  \<open>Array.from(map.values())\<close> lists the values in that order.
\<close>

type_synonym group_map = "(string \<times> group_aggregate) list"

definition map_has :: "group_map \<Rightarrow> string \<Rightarrow> bool" where
  "map_has m key = (map_of m key \<noteq> None)"

fun map_set :: "group_map \<Rightarrow> string \<Rightarrow> group_aggregate \<Rightarrow> group_map" where
  "map_set [] key v = [(key, v)]"
| "map_set ((k, w) # m) key v = (if k = key then (k, v) # m else (k, w) # map_set m key v)"

text \<open>
  \<open>const g = map.get(key); g.total_lessons++\<close> mutates the object the map
  holds: the entry under the key is replaced by the updated object.
\<close>

fun map_mutate :: "group_map \<Rightarrow> string \<Rightarrow> (group_aggregate \<Rightarrow> group_aggregate) \<Rightarrow> group_map" where
  "map_mutate [] key f = []"
| "map_mutate ((k, w) # m) key f = (if k = key then (k, f w) # m else (k, w) # map_mutate m key f)"

definition map_values :: "group_map \<Rightarrow> group_aggregate list" where
  "map_values m = map snd m"

text \<open>The key \<open>`${lesson.collection_id}-${lesson.collection_name}`\<close>, and alike for the other levels.\<close>

definition group_key :: "int \<Rightarrow> string \<Rightarrow> string" where
  "group_key gid name = number_to_string gid @ ''-'' @ name"

text \<open>One level of the body of the \<open>forEach\<close>: create the entry if absent, then count.\<close>

definition aggregate_level ::
  "int \<Rightarrow> string \<Rightarrow> string option \<Rightarrow> group_map \<Rightarrow> group_map" where
  "aggregate_level gid name completion m =
     (let key = group_key gid name;
          m1 = (if \<not> map_has m key
                then map_set m key \<lparr> group_id = gid, group_name = name,
                                      total_lessons = 0, completed_lessons = 0 \<rparr>
                else m);
          m2 = map_mutate m1 key (\<lambda>g. g\<lparr> total_lessons := total_lessons g + 1 \<rparr>)
      in if truthy_str completion
         then map_mutate m2 key (\<lambda>g. g\<lparr> completed_lessons := completed_lessons g + 1 \<rparr>)
         else m2)"

definition collection_level :: "lesson list \<Rightarrow> group_map" where
  "collection_level ls =
     foldl (\<lambda>collectionMap l.
              aggregate_level (collection_id l) (collection_name l) (completion_date l)
                collectionMap) [] ls"

definition course_level :: "lesson list \<Rightarrow> group_map" where
  "course_level ls =
     foldl (\<lambda>courseMap l.
              aggregate_level (course_id l) (course_name l) (completion_date l)
                courseMap) [] ls"

definition chapter_level :: "lesson list \<Rightarrow> group_map" where
  "chapter_level ls =
     foldl (\<lambda>chapterMap l.
              aggregate_level (chapter_id l) (chapter_name l) (completion_date l)
                chapterMap) [] ls"

record per_student_aggregates =
  psa_collectionAggregates :: "group_aggregate list"
  psa_courseAggregates :: "group_aggregate list"
  psa_chapterAggregates :: "group_aggregate list"

definition perStudentAggregates :: "app_state \<Rightarrow> per_student_aggregates" where
  "perStudentAggregates st =
     (if \<not> truthy (selectedStudentId st) then
        \<lparr> psa_collectionAggregates = [], psa_courseAggregates = [],
          psa_chapterAggregates = [] \<rparr>
      else case individualStudentData st of
        None \<Rightarrow>
          \<lparr> psa_collectionAggregates = [], psa_courseAggregates = [],
            psa_chapterAggregates = [] \<rparr>
      | Some ls \<Rightarrow>
          \<lparr> psa_collectionAggregates = map_values (collection_level ls),
            psa_courseAggregates = map_values (course_level ls),
            psa_chapterAggregates = map_values (chapter_level ls) \<rparr>)"

subsection \<open>Filtered metrics\<close>

text \<open>The curriculum filter: the first truthy filter id, from chapter up, is the only one applied.\<close>

definition filteredData :: "app_state \<Rightarrow> lesson list \<Rightarrow> lesson list" where
  "filteredData st ls =
     (if truthy (selectedChapterId st) then
        filter (\<lambda>l. Some (chapter_id l) = selectedChapterId st) ls
      else if truthy (selectedCourseId st) then
        filter (\<lambda>l. Some (course_id l) = selectedCourseId st) ls
      else if truthy (selectedCollectionId st) then
        filter (\<lambda>l. Some (collection_id l) = selectedCollectionId st) ls
      else if truthy (selectedCurriculumId st) then
        filter (\<lambda>l. Some (curriculum_id l) = selectedCurriculumId st) ls
      else ls)"

text \<open>\<open>xs[0]?.name || fallback\<close>.\<close>

definition first_name_or :: "(lesson \<Rightarrow> string) \<Rightarrow> string \<Rightarrow> lesson list \<Rightarrow> string" where
  "first_name_or name fallback xs =
     (case xs of [] \<Rightarrow> fallback
      | x # _ \<Rightarrow> if name x = [] then fallback else name x)"

definition student_title :: "app_state \<Rightarrow> lesson list \<Rightarrow> string" where
  "student_title st fd =
     (if truthy (selectedChapterId st) then
        ''Student: '' @ first_name_or chapter_name ''Chapter'' fd
      else if truthy (selectedCourseId st) then
        ''Student: '' @ first_name_or course_name ''Course'' fd
      else if truthy (selectedCollectionId st) then
        ''Student: '' @ first_name_or collection_name ''Collection'' fd
      else if truthy (selectedCurriculumId st) then
        ''Student: '' @ first_name_or curriculum_name ''Curriculum'' fd
      else ''Student Progress'')"

definition calculatedStudentMetrics :: "app_state \<Rightarrow> metrics option" where
  "calculatedStudentMetrics st =
     (if \<not> truthy (selectedStudentId st) then None
      else case individualStudentData st of
        None \<Rightarrow> None
      | Some ls \<Rightarrow>
          (let fd = filteredData st ls
           in Some \<lparr> totalLessons = int (length fd),
                     totalCompleted =
                       int (length (filter (\<lambda>l. truthy_str (completion_date l)) fd)),
                     requiredLessons = int (length (filter is_required fd)),
                     requiredCompleted =
                       int (length (filter (\<lambda>l. is_required l \<and>
                                                 truthy_str (completion_date l)) fd)),
                     title = student_title st fd \<rparr>))"

section \<open>The aggregate resolver\<close>

definition useCohortData :: "app_state \<Rightarrow> bool" where
  "useCohortData st = (truthy (selectedCohortId st) \<and> length (cohortAggregates st) > 0)"

text \<open>The row found at the level the filters choose, with the title built from it.\<close>

definition aggregateData :: "app_state \<Rightarrow> (aggregate_row \<times> string) option" where
  "aggregateData st =
     (if truthy (selectedChapterId st) then
        (case List.find (\<lambda>c. agg_chapter_id c = selectedChapterId st)
                (if useCohortData st then cohortChapterAggregates st else chapterAggregates st) of
           Some d \<Rightarrow> Some (d, ''Chapter: '' @ interpolate (agg_chapter_name d))
         | None \<Rightarrow> None)
      else if truthy (selectedCourseId st) then
        (case List.find (\<lambda>c. agg_course_id c = selectedCourseId st)
                (if useCohortData st then cohortCourseAggregates st else courseAggregates st) of
           Some d \<Rightarrow> Some (d, ''Course: '' @ interpolate (agg_course_name d))
         | None \<Rightarrow> None)
      else if truthy (selectedCollectionId st) then
        (case List.find (\<lambda>c. agg_collection_id c = selectedCollectionId st)
                (if useCohortData st then cohortCollectionAggregates st
                 else collectionAggregates st) of
           Some d \<Rightarrow> Some (d, ''Collection: '' @ interpolate (agg_collection_name d))
         | None \<Rightarrow> None)
      else if truthy (selectedCurriculumId st) then
        (case List.find (\<lambda>c. agg_curriculum_id c = selectedCurriculumId st)
                (if useCohortData st then cohortCurriculumAggregates st
                 else curriculumAggregates st) of
           Some d \<Rightarrow> Some (d, ''Curriculum: '' @ interpolate (agg_curriculum_name d))
         | None \<Rightarrow> None)
      else
        (case (if useCohortData st
               then List.find (\<lambda>agg. agg_cohort_id agg = selectedCohortId st) (cohortAggregates st)
               else (case schoolAggregates st of [] \<Rightarrow> None | d # _ \<Rightarrow> Some d)) of
           Some d \<Rightarrow>
             Some (d, if useCohortData st
                      then ''Cohort: '' @ interpolate (agg_cohort_name d)
                      else ''School: '' @ interpolate (agg_school_name d))
         | None \<Rightarrow> None))"

definition currentAggregate :: "app_state \<Rightarrow> metrics option" where
  "currentAggregate st =
     (if truthy (selectedStudentId st) \<and> calculatedStudentMetrics st \<noteq> None then
        calculatedStudentMetrics st
      else case aggregateData st of
        Some (d, t) \<Rightarrow>
          Some \<lparr> totalLessons = or_zero (total_lessons_expected d),
                 totalCompleted = or_zero (total_lessons_completed d),
                 requiredLessons = or_zero (required_lessons_expected d),
                 requiredCompleted = or_zero (required_lessons_completed d),
                 title = t \<rparr>
      | None \<Rightarrow> None)"

section \<open>Display projection (ProgressChart)\<close>

subsection \<open>JavaScript number arithmetic\<close>

text \<open>
  JavaScript numbers are IEEE 754 binary64 values.  A finite one is a rational,
  and \<open>/\<close> and \<open>*\<close> return the binary64 value nearest to the exact result,
  ties going to the even significand.  \<open>double\<close> is that rounding, for the
  normal range (magnitudes from \<open>2^-1022\<close> up to \<open>2^1024\<close>, which quotients
  and percentages of lesson counts below \<open>2^53\<close> never leave): the result has a
  53-bit significand scaled by the power of two of the binade of its argument.
\<close>

definition pow2 :: "int \<Rightarrow> rat" where
  "pow2 e = (if 0 \<le> e then 2 ^ nat e else 1 / 2 ^ nat (- e))"

text \<open>The binade of a positive rational: the \<open>e\<close> with \<open>2^e \<le> x < 2^(e+1)\<close>.\<close>

definition binade :: "rat \<Rightarrow> int" where
  "binade x =
     (let d = bitlen (fst (quotient_of x)) - bitlen (snd (quotient_of x))
      in if pow2 d \<le> x then d else d - 1)"

text \<open>Rounding to the nearest integer, a tie going to the even one.\<close>

definition round_ties_even :: "rat \<Rightarrow> int" where
  "round_ties_even x =
     (let f = \<lfloor>x\<rfloor>; r = x - of_int f
      in if r < 1 / 2 then f
         else if 1 / 2 < r then f + 1
         else if even f then f else f + 1)"

definition double_pos :: "rat \<Rightarrow> rat" where
  "double_pos x =
     (let ulp = pow2 (binade x - 52) in of_int (round_ties_even (x / ulp)) * ulp)"

definition double :: "rat \<Rightarrow> rat" where
  "double x = (if x = 0 then 0 else if x < 0 then - double_pos (- x) else double_pos x)"

definition js_div :: "rat \<Rightarrow> rat \<Rightarrow> rat" where
  "js_div a b = double (a / b)"

definition js_mul :: "rat \<Rightarrow> rat \<Rightarrow> rat" where
  "js_mul a b = double (a * b)"

text \<open>\<open>Math.round\<close>: the nearest integer, a tie going up.\<close>

definition Math_round :: "rat \<Rightarrow> int" where
  "Math_round x = \<lfloor>x + 1 / 2\<rfloor>"

subsection \<open>displayData and the two percentages\<close>

definition displayData :: "metrics option \<Rightarrow> metrics option \<Rightarrow> metrics" where
  "displayData calculated current =
     (case calculated of
        Some m \<Rightarrow> m
      | None \<Rightarrow>
          (case current of
             Some m \<Rightarrow> m
           | None \<Rightarrow> \<lparr> totalLessons = 0, totalCompleted = 0, requiredLessons = 0,
                        requiredCompleted = 0, title = ''No Data Available'' \<rparr>))"

definition totalPercentage :: "metrics \<Rightarrow> int" where
  "totalPercentage d =
     (if totalLessons d > 0
      then Math_round (js_mul (js_div (of_int (totalCompleted d)) (of_int (totalLessons d))) 100)
      else 0)"

definition requiredPercentage :: "metrics \<Rightarrow> int" where
  "requiredPercentage d =
     (if requiredLessons d > 0
      then Math_round
             (js_mul (js_div (of_int (requiredCompleted d)) (of_int (requiredLessons d))) 100)
      else 0)"

text \<open>
  The percentage as the specification words it: the exactly rounded
  \<open>100 * completed / total\<close>, and \<open>0\<close> when the denominator is \<open>0\<close>.
\<close>

definition spec_percentage :: "int \<Rightarrow> int \<Rightarrow> int" where
  "spec_percentage completed expected =
     (if expected = 0 then 0 else round (100 * of_int completed / of_int expected :: rat))"

section \<open>Auxiliary notions for the properties\<close>

text \<open>The state with the four curriculum filters blanked: what is left is everything else.\<close>

definition without_filters :: "app_state \<Rightarrow> app_state" where
  "without_filters st =
     st\<lparr> selectedCurriculumId := None, selectedCollectionId := None,
         selectedCourseId := None, selectedChapterId := None \<rparr>"

text \<open>A response of the aggregate route with every table empty.\<close>

definition empty_bundle :: school_bundle where
  "empty_bundle =
     \<lparr> schoolAggregate = Some [], curriculumAggregate = Some [],
       schoolCollectionAggregate = Some [], schoolCourseAggregate = Some [],
       schoolChapterAggregate = Some [], studentAggregate = None,
       schoolStudentAggregate = Some [],
       cohortAggregate = Some [], cohortCurriculumAggregate = Some [],
       cohortCollectionAggregate = Some [], cohortCourseAggregate = Some [],
       cohortChapterAggregate = Some [], cohortStudentAggregate = Some [] \<rparr>"

text \<open>
  A lesson row for examples: lesson id, chapter id, collection id and name,
  curriculum id and completion date vary; the course is fixed.
\<close>

definition sample_lesson ::
  "int \<Rightarrow> int \<Rightarrow> int \<Rightarrow> string \<Rightarrow> int \<Rightarrow> string option \<Rightarrow> lesson" where
  "sample_lesson lid chid colid colname curid completion =
     \<lparr> lesson_id = lid, lesson_name = ''Lesson'', is_required = True,
       chapter_id = chid, chapter_name = ''Chapter A'',
       course_id = 3, course_name = ''Course A'',
       collection_id = colid, collection_name = colname,
       curriculum_id = curid, curriculum_name = ''Curriculum A'',
       engagement_date = None, completion_date = completion \<rparr>"

definition guest_user :: faculty_user where
  "guest_user = \<lparr> user_id = 1, email = ''guest@example.org'', role = ''guest'' \<rparr>"

definition supaadmin_user :: faculty_user where
  "supaadmin_user = \<lparr> user_id = - 1, email = ''supaadmin'', role = ''supaadmin'' \<rparr>"


text \<open>
  The records kept by the curriculum filter, in the words of the specification:
  if the chapter id is set, the records with that chapter id; else if the course
  id is set, those with that course id; else by the collection id; else by the
  curriculum id; else all records.  Set means non-null here.
\<close>

definition spec_filteredData :: "app_state \<Rightarrow> lesson list \<Rightarrow> lesson list" where
  "spec_filteredData st ls =
     (if selectedChapterId st \<noteq> None then
        filter (\<lambda>l. Some (chapter_id l) = selectedChapterId st) ls
      else if selectedCourseId st \<noteq> None then
        filter (\<lambda>l. Some (course_id l) = selectedCourseId st) ls
      else if selectedCollectionId st \<noteq> None then
        filter (\<lambda>l. Some (collection_id l) = selectedCollectionId st) ls
      else if selectedCurriculumId st \<noteq> None then
        filter (\<lambda>l. Some (curriculum_id l) = selectedCurriculumId st) ls
      else ls)"

text \<open>
  The state in which a held cohort or filter id of 0 is read as no selection,
  and the states that hold no such id.
\<close>

definition unselect_zero :: "int option \<Rightarrow> int option" where
  "unselect_zero x = (if x = Some 0 then None else x)"

definition zero_ids_unselected :: "app_state \<Rightarrow> app_state" where
  "zero_ids_unselected st =
     st\<lparr> selectedCohortId := unselect_zero (selectedCohortId st),
         selectedCurriculumId := unselect_zero (selectedCurriculumId st),
         selectedCollectionId := unselect_zero (selectedCollectionId st),
         selectedCourseId := unselect_zero (selectedCourseId st),
         selectedChapterId := unselect_zero (selectedChapterId st) \<rparr>"

definition no_zero_id :: "app_state \<Rightarrow> bool" where
  "no_zero_id st \<longleftrightarrow>
     selectedCohortId st \<noteq> Some 0 \<and> selectedCurriculumId st \<noteq> Some 0 \<and>
     selectedCollectionId st \<noteq> Some 0 \<and> selectedCourseId st \<noteq> Some 0 \<and>
     selectedChapterId st \<noteq> Some 0"

text \<open>The all-null selection state: none of the seven ids is held.\<close>

definition all_null :: "app_state \<Rightarrow> bool" where
  "all_null st \<longleftrightarrow>
     selectedSchoolId st = None \<and> selectedCohortId st = None \<and>
     selectedStudentId st = None \<and> selectedCurriculumId st = None \<and>
     selectedCollectionId st = None \<and> selectedCourseId st = None \<and>
     selectedChapterId st = None"

text \<open>A row for examples: a chapter-level row with the four counts.\<close>

definition sample_row :: "int \<Rightarrow> string \<Rightarrow> int \<Rightarrow> int \<Rightarrow> int \<Rightarrow> int \<Rightarrow> aggregate_row" where
  "sample_row chid chname expected completed required requiredDone =
     \<lparr> agg_school_name = Name ''School A'', agg_cohort_id = None, agg_cohort_name = Absent,
       agg_curriculum_id = None, agg_curriculum_name = Absent,
       agg_collection_id = None, agg_collection_name = Absent,
       agg_course_id = Some 3, agg_course_name = Name ''Course A'',
       agg_chapter_id = Some chid, agg_chapter_name = Name chname,
       total_lessons_expected = Some expected, total_lessons_completed = Some completed,
       required_lessons_expected = Some required,
       required_lessons_completed = Some requiredDone \<rparr>"

text \<open>A state for examples: student 3 of school 1 is selected and two lessons are held.\<close>

definition student_view :: app_state where
  "student_view =
     initial_state
       \<lparr> selectedSchoolId := Some 1, selectedStudentId := Some 3,
         individualStudentData :=
           Some [sample_lesson 10 5 1 ''Emergency Medicine'' 7 (Some ''2024-01-01''),
                 sample_lesson 11 6 1 ''Emergency Medicine'' 9 None],
         chapterAggregates := [sample_row 5 ''Chapter A'' 150 120 100 80],
         schoolAggregates := [sample_row 5 ''Chapter A'' 900 400 300 200] \<rparr>"

text \<open>The key of a pair of an id and a name.\<close>

definition pair_key :: "int \<times> string \<Rightarrow> string" where
  "pair_key k = group_key (fst k) (snd k)"

text \<open>
  The entry of a pair of an id and a name over a list of records: the number of
  the records with that id and name, and of those among them that are completed.
\<close>

definition group_entry ::
  "(lesson \<Rightarrow> int) \<Rightarrow> (lesson \<Rightarrow> string) \<Rightarrow> lesson list \<Rightarrow> int \<times> string \<Rightarrow> group_aggregate" where
  "group_entry idf namef ls k =
     \<lparr> group_id = fst k, group_name = snd k,
       total_lessons = int (length (filter (\<lambda>l. idf l = fst k \<and> namef l = snd k) ls)),
       completed_lessons =
         int (length (filter (\<lambda>l. idf l = fst k \<and> namef l = snd k \<and>
                                   truthy_str (completion_date l)) ls)) \<rparr>"

text \<open>
  What a list of group entries must be to be the grouping of the records by the
  pair of an id and a name: one entry for each pair that occurs, each counting
  the records with its id and its name, and among them those completed.
\<close>

definition is_grouping ::
  "(lesson \<Rightarrow> int) \<Rightarrow> (lesson \<Rightarrow> string) \<Rightarrow> lesson list \<Rightarrow> group_aggregate list \<Rightarrow> bool" where
  "is_grouping idf namef ls gs \<longleftrightarrow>
     distinct (map (\<lambda>g. (group_id g, group_name g)) gs) \<and>
     set (map (\<lambda>g. (group_id g, group_name g)) gs) = (\<lambda>l. (idf l, namef l)) ` set ls \<and>
     (\<forall>g \<in> set gs.
        total_lessons g =
          int (length (filter (\<lambda>l. idf l = group_id g \<and> namef l = group_name g) ls)) \<and>
        completed_lessons g =
          int (length (filter (\<lambda>l. idf l = group_id g \<and> namef l = group_name g \<and>
                                    truthy_str (completion_date l)) ls)))"

text \<open>
  The grouping by the id alone, as the specification words it: one entry for
  each id that occurs, counting the records with that id.
\<close>

definition is_grouping_by_id ::
  "(lesson \<Rightarrow> int) \<Rightarrow> lesson list \<Rightarrow> group_aggregate list \<Rightarrow> bool" where
  "is_grouping_by_id idf ls gs \<longleftrightarrow>
     distinct (map group_id gs) \<and>
     set (map group_id gs) = idf ` set ls \<and>
     (\<forall>g \<in> set gs.
        total_lessons g = int (length (filter (\<lambda>l. idf l = group_id g) ls)) \<and>
        completed_lessons g =
          int (length (filter (\<lambda>l. idf l = group_id g \<and> truthy_str (completion_date l)) ls)))"

text \<open>The records give each id one name.\<close>

definition one_name_per_id :: "(lesson \<Rightarrow> int) \<Rightarrow> (lesson \<Rightarrow> string) \<Rightarrow> lesson list \<Rightarrow> bool" where
  "one_name_per_id idf namef ls \<longleftrightarrow>
     (\<forall>l \<in> set ls. \<forall>l' \<in> set ls. idf l = idf l' \<longrightarrow> namef l = namef l')"

text \<open>States for examples: student 3 is selected and holds the given lessons.\<close>

definition grouping_example :: app_state where
  "grouping_example =
     initial_state
       \<lparr> selectedSchoolId := Some 1, selectedStudentId := Some 3,
         individualStudentData :=
           Some [sample_lesson 10 5 1 ''Emergency Medicine'' 9 None,
                 sample_lesson 11 5 1 ''Emergency Medicine'' 9 (Some ''2024-01-01''),
                 sample_lesson 12 6 2 ''Family Medicine'' 9 None] \<rparr>"

definition renamed_example :: app_state where
  "renamed_example =
     initial_state
       \<lparr> selectedSchoolId := Some 1, selectedStudentId := Some 3,
         individualStudentData :=
           Some [sample_lesson 10 5 1 ''Emergency Medicine'' 9 None,
                 sample_lesson 11 5 1 ''Emergency Med.'' 9 None] \<rparr>"

text \<open>
  \<open>100 * completed / expected\<close> lies exactly half-way between two integers:
  \<open>100 * completed / expected + 1 / 2\<close> is an integer.
\<close>

definition half_way :: "int \<Rightarrow> int \<Rightarrow> bool" where
  "half_way completed expected \<longleftrightarrow> (200 * completed + expected) mod (2 * expected) = 0"

section \<open>Properties of the selection handlers\<close>

subsection \<open>Frame of the curriculum filter handlers\<close>

text \<open>
  C10.  Each of the four curriculum filter handlers changes nothing but the four
  filter ids: the selected school, cohort and student ids and the held lesson
  records are the same before and after the call, for every prior state and every
  id-or-null argument.  The last four conjuncts say more: the whole state apart
  from the four filter ids is unchanged.
\<close>

theorem filter_handlers_frame:
  "selectedSchoolId (handleCurriculumSelection x st) = selectedSchoolId st \<and>
   selectedCohortId (handleCurriculumSelection x st) = selectedCohortId st \<and>
   selectedStudentId (handleCurriculumSelection x st) = selectedStudentId st \<and>
   individualStudentData (handleCurriculumSelection x st) = individualStudentData st \<and>
   selectedSchoolId (handleCollectionSelection x st) = selectedSchoolId st \<and>
   selectedCohortId (handleCollectionSelection x st) = selectedCohortId st \<and>
   selectedStudentId (handleCollectionSelection x st) = selectedStudentId st \<and>
   individualStudentData (handleCollectionSelection x st) = individualStudentData st \<and>
   selectedSchoolId (handleCourseSelection x st) = selectedSchoolId st \<and>
   selectedCohortId (handleCourseSelection x st) = selectedCohortId st \<and>
   selectedStudentId (handleCourseSelection x st) = selectedStudentId st \<and>
   individualStudentData (handleCourseSelection x st) = individualStudentData st \<and>
   selectedSchoolId (handleChapterSelection x st) = selectedSchoolId st \<and>
   selectedCohortId (handleChapterSelection x st) = selectedCohortId st \<and>
   selectedStudentId (handleChapterSelection x st) = selectedStudentId st \<and>
   individualStudentData (handleChapterSelection x st) = individualStudentData st \<and>
   without_filters (handleCurriculumSelection x st) = without_filters st \<and>
   without_filters (handleCollectionSelection x st) = without_filters st \<and>
   without_filters (handleCourseSelection x st) = without_filters st \<and>
   without_filters (handleChapterSelection x st) = without_filters st"
  by (simp add: handleCurriculumSelection_def handleCollectionSelection_def
      handleCourseSelection_def handleChapterSelection_def without_filters_def)

subsection \<open>Selecting a school\<close>

lemma handleSchoolSelection_filters:
  "selectedCurriculumId (handleSchoolSelection canAccess response schoolId st) =
     selectedCurriculumId st \<and>
   selectedCollectionId (handleSchoolSelection canAccess response schoolId st) =
     selectedCollectionId st \<and>
   selectedCourseId (handleSchoolSelection canAccess response schoolId st) =
     selectedCourseId st \<and>
   selectedChapterId (handleSchoolSelection canAccess response schoolId st) =
     selectedChapterId st"
  by (simp add: handleSchoolSelection_def store_bundle_def Let_def split: awaited.split)

lemma handleSchoolSelection_applied_ids:
  assumes "\<not> access_refused (currentUser st) canAccess"
  shows "selectedCohortId (handleSchoolSelection canAccess response schoolId st) = None"
    and "selectedStudentId (handleSchoolSelection canAccess response schoolId st) = None"
    and "selectedSchoolId (handleSchoolSelection canAccess response schoolId st) =
           (if truthy schoolId then schoolId else None)"
  using assms
  by (simp_all add: handleSchoolSelection_def store_bundle_def Let_def split: awaited.split)

text \<open>
  C2, as stated, fails: \<open>handleSchoolSelection\<close> never writes the curriculum
  filters.  With curriculum 9 selected, selecting school 1 (access granted, the
  bundle loaded) leaves curriculum 9 selected.
\<close>

theorem selectSchool_keeps_filters_counterexample:
  "selectedCurriculumId
     (handleSchoolSelection True (Resolved (empty_bundle, None)) (Some 1)
        (handleCurriculumSelection (Some 9) initial_state)) = Some 9"
  by (simp add: handleSchoolSelection_def handleCurriculumSelection_def initial_state_def
      store_bundle_def truthy_def access_refused_def Let_def)

text \<open>
  C2, amended.  For every prior state and every non-null school id whose
  selection is not refused by the access check, the selected cohort id and the
  selected student id are null afterwards, and the four curriculum filter ids
  (curriculum, collection, course, chapter) are left exactly as they were.
\<close>

theorem selectSchool_clears_entities_keeps_filters:
  assumes "schoolId \<noteq> None"
    and "\<not> access_refused (currentUser st) canAccess"
  shows "selectedCohortId (handleSchoolSelection canAccess response schoolId st) = None \<and>
         selectedStudentId (handleSchoolSelection canAccess response schoolId st) = None \<and>
         selectedCurriculumId (handleSchoolSelection canAccess response schoolId st) =
           selectedCurriculumId st \<and>
         selectedCollectionId (handleSchoolSelection canAccess response schoolId st) =
           selectedCollectionId st \<and>
         selectedCourseId (handleSchoolSelection canAccess response schoolId st) =
           selectedCourseId st \<and>
         selectedChapterId (handleSchoolSelection canAccess response schoolId st) =
           selectedChapterId st"
  using handleSchoolSelection_applied_ids [OF assms(2)] handleSchoolSelection_filters
  by simp

theorem selectSchool_clears_entities_keeps_filters_witness:
  "(Some 1 :: int option) \<noteq> None \<and>
   \<not> access_refused
       (currentUser (handleCohortSelection (Some 4)
          (handleCurriculumSelection (Some 9) initial_state))) True \<and>
   selectedCohortId (handleCohortSelection (Some 4)
      (handleCurriculumSelection (Some 9) initial_state)) = Some 4 \<and>
   selectedCohortId
     (handleSchoolSelection True (Resolved (empty_bundle, None)) (Some 1)
        (handleCohortSelection (Some 4)
           (handleCurriculumSelection (Some 9) initial_state))) = None \<and>
   selectedCurriculumId
     (handleSchoolSelection True (Resolved (empty_bundle, None)) (Some 1)
        (handleCohortSelection (Some 4)
           (handleCurriculumSelection (Some 9) initial_state))) = Some 9"
proof -
  let ?st = "handleCohortSelection (Some 4) (handleCurriculumSelection (Some 9) initial_state)"
  have user: "currentUser ?st = None"
    by (simp add: handleCohortSelection_def handleCurriculumSelection_def initial_state_def
        truthy_def)
  have h1: "(Some 1 :: int option) \<noteq> None" by simp
  have h2: "\<not> access_refused (currentUser ?st) True"
    by (simp add: user access_refused_def)
  have before: "selectedCohortId ?st = Some 4 \<and> selectedCurriculumId ?st = Some 9"
    by (simp add: handleCohortSelection_def handleCurriculumSelection_def initial_state_def
        truthy_def)
  from selectSchool_clears_entities_keeps_filters
         [OF h1 h2, of "Resolved (empty_bundle, None)"] h1 h2 before
  show ?thesis by simp
qed

text \<open>
  C8, as stated, fails: the access check is skipped for a supaadmin, so a negative
  answer of \<open>canAccessSchool\<close> does not stop the selection; and school id 0 is
  falsy, so the handler takes its deselection branch before any check.
\<close>

theorem access_denied_counterexample:
  "selectedSchoolId
     (handleSchoolSelection False (Resolved (empty_bundle, None)) (Some 5)
        (initial_state\<lparr> currentUser := Some supaadmin_user \<rparr>)) = Some 5 \<and>
   selectedSchoolId (initial_state\<lparr> currentUser := Some supaadmin_user \<rparr>) = None \<and>
   selectedSchoolId
     (handleSchoolSelection False (Resolved (empty_bundle, None)) (Some 0)
        (initial_state\<lparr> currentUser := Some guest_user, selectedSchoolId := Some 7 \<rparr>)) = None"
  by (simp add: handleSchoolSelection_def initial_state_def store_bundle_def truthy_def
      access_refused_def supaadmin_user_def guest_user_def Let_def)

text \<open>
  C8, amended.  For every logged-in current user who is not a supaadmin and every
  school id other than 0 for which \<open>canAccessSchool\<close> answers false, the call
  changes nothing but the error message: the selection ids, the filters, the
  lesson records and every aggregate table are as before (so there is no partial
  mutation), and the error message reads that the user has no permission.
\<close>

theorem access_denied_leaves_state:
  assumes "currentUser st = Some u"
    and "role u \<noteq> ''supaadmin''"
    and "truthy schoolId"
  shows "handleSchoolSelection False response schoolId st =
           st\<lparr> error := Some ''You do not have permission to access this school'' \<rparr>"
  using assms by (simp add: handleSchoolSelection_def access_refused_def)

theorem access_denied_leaves_state_witness:
  "currentUser (initial_state\<lparr> currentUser := Some guest_user \<rparr>) = Some guest_user \<and>
   role guest_user \<noteq> ''supaadmin'' \<and> truthy (Some 5) \<and>
   handleSchoolSelection False (Resolved (empty_bundle, None)) (Some 5)
       (initial_state\<lparr> currentUser := Some guest_user \<rparr>) =
     initial_state\<lparr> currentUser := Some guest_user,
                     error := Some ''You do not have permission to access this school'' \<rparr>"
proof -
  have h1: "currentUser (initial_state\<lparr> currentUser := Some guest_user \<rparr>) = Some guest_user"
    by simp
  have h2: "role guest_user \<noteq> ''supaadmin''"
    by (simp add: guest_user_def)
  have h3: "truthy (Some 5)"
    by (simp add: truthy_def)
  from access_denied_leaves_state [OF h1 h2 h3, of "Resolved (empty_bundle, None)"] h1 h2 h3
  show ?thesis by simp
qed

subsection \<open>The cascade invariant\<close>

lemma handleStudentSelection_ids:
  "selectedSchoolId (handleStudentSelection response studentId st) = selectedSchoolId st"
  "selectedCohortId (handleStudentSelection response studentId st) = selectedCohortId st"
  "selectedStudentId (handleStudentSelection response studentId st) =
     (if truthy studentId then studentId else None)"
  "selectedCurriculumId (handleStudentSelection response studentId st) = selectedCurriculumId st"
  "selectedCollectionId (handleStudentSelection response studentId st) = selectedCollectionId st"
  "selectedCourseId (handleStudentSelection response studentId st) = selectedCourseId st"
  "selectedChapterId (handleStudentSelection response studentId st) = selectedChapterId st"
  by (simp_all add: handleStudentSelection_def handleStudentSelection_begin_def
      handleStudentSelection_settle_def split: awaited.split)

lemma handleCohortSelection_ids:
  "selectedSchoolId (handleCohortSelection cohortId st) = selectedSchoolId st"
  "selectedCohortId (handleCohortSelection cohortId st) =
     (if truthy cohortId then cohortId else None)"
  "selectedStudentId (handleCohortSelection cohortId st) = None"
  "selectedCurriculumId (handleCohortSelection cohortId st) = selectedCurriculumId st"
  "selectedCollectionId (handleCohortSelection cohortId st) = selectedCollectionId st"
  "selectedCourseId (handleCohortSelection cohortId st) = selectedCourseId st"
  "selectedChapterId (handleCohortSelection cohortId st) = selectedChapterId st"
  by (simp_all add: handleCohortSelection_def Let_def)

lemma handleSchoolSelection_ids:
  "selectedSchoolId (handleSchoolSelection canAccess response schoolId st) =
     (if \<not> truthy schoolId then None
      else if access_refused (currentUser st) canAccess then selectedSchoolId st
      else schoolId)"
  "selectedCohortId (handleSchoolSelection canAccess response schoolId st) =
     (if truthy schoolId \<and> access_refused (currentUser st) canAccess
      then selectedCohortId st else None)"
  "selectedStudentId (handleSchoolSelection canAccess response schoolId st) =
     (if truthy schoolId \<and> access_refused (currentUser st) canAccess
      then selectedStudentId st else None)"
  by (simp_all add: handleSchoolSelection_def store_bundle_def Let_def split: awaited.split)

lemma truthy_not_None: "truthy x \<Longrightarrow> x \<noteq> None"
  by (cases x) (simp_all add: truthy_def)

lemma cascade_ok_step:
  assumes "cascade_ok st" and "parent_selected c st"
  shows "cascade_ok (apply_call c st)"
proof (cases c)
  case (SelectSchool schoolId canAccess response)
  with assms show ?thesis
    using handleSchoolSelection_filters [of canAccess response schoolId st]
    by (auto simp: cascade_ok_def handleSchoolSelection_ids dest: truthy_not_None)
next
  case (SelectCohort cohortId)
  with assms show ?thesis
    by (auto simp: cascade_ok_def handleCohortSelection_ids)
next
  case (SelectStudent studentId response)
  with assms show ?thesis
    by (auto simp: cascade_ok_def handleStudentSelection_ids)
next
  case (SelectCurriculum curriculumId)
  with assms show ?thesis
    by (simp add: cascade_ok_def handleCurriculumSelection_def)
next
  case (SelectCollection collectionId)
  with assms show ?thesis
    by (simp add: cascade_ok_def handleCollectionSelection_def)
next
  case (SelectCourse courseId)
  with assms show ?thesis
    by (simp add: cascade_ok_def handleCourseSelection_def)
next
  case (SelectChapter chapterId)
  with assms show ?thesis
    by (simp add: cascade_ok_def handleChapterSelection_def)
qed

lemma cascade_ok_states_after:
  "cascade_ok st \<Longrightarrow> all_parent_selected st cs \<Longrightarrow>
   \<forall>s \<in> set (states_after st cs). cascade_ok s"
proof (induction cs arbitrary: st)
  case Nil
  then show ?case by simp
next
  case (Cons c cs)
  from Cons.prems have ok: "cascade_ok (apply_call c st)"
    by (simp add: cascade_ok_step)
  from Cons.prems have rest: "all_parent_selected (apply_call c st) cs"
    by simp
  from Cons.IH [OF ok rest] ok show ?case by simp
qed

lemma cascade_ok_all_null: "all_null st \<Longrightarrow> cascade_ok st"
  by (simp add: cascade_ok_def all_null_def)

text \<open>
  C3, as stated, fails: the handlers set the id they are given without looking
  at the level above.  From the all-null state, selecting chapter 5 leaves a
  chapter id with no course id, and selecting student 3 (the records loaded)
  leaves a student id with no school id.
\<close>

theorem cascade_counterexample:
  "\<not> cascade_ok (apply_call (SelectChapter (Some 5)) initial_state) \<and>
   selectedChapterId (apply_call (SelectChapter (Some 5)) initial_state) = Some 5 \<and>
   selectedCourseId (apply_call (SelectChapter (Some 5)) initial_state) = None \<and>
   selectedStudentId (apply_call (SelectStudent (Some 3) (Resolved [])) initial_state) = Some 3 \<and>
   selectedSchoolId (apply_call (SelectStudent (Some 3) (Resolved [])) initial_state) = None"
  by (simp add: cascade_ok_def handleChapterSelection_def handleStudentSelection_ids
      initial_state_def truthy_def)

text \<open>
  C3, amended.  For every finite sequence of handler calls, starting from an
  all-null selection state (whoever the current user is, logged in or not, and
  whatever the tables hold), in which every call that sets a cohort, student,
  collection, course or chapter id is made while the id one level above it is
  non-null (the selectors are disabled otherwise), the state after each call
  satisfies the cascade invariant: student \<open>\<Rightarrow>\<close> school, cohort \<open>\<Rightarrow>\<close> school,
  chapter \<open>\<Rightarrow>\<close> course \<open>\<Rightarrow>\<close> collection \<open>\<Rightarrow>\<close> curriculum.  Calls to select a
  school or a curriculum, and calls that clear a level, are unrestricted; a
  school selection may be granted, refused by the access check, or fail to load.
\<close>

theorem cascade_invariant:
  assumes "all_null st"
    and "all_parent_selected st calls"
  shows "\<forall>s \<in> set (states_after st calls). cascade_ok s"
  using cascade_ok_states_after [OF cascade_ok_all_null [OF assms(1)] assms(2)] .

text \<open>
  A guest is logged in.  School 1 is granted, filters, a cohort and a student
  are selected; school 2 is then refused, which keeps school 1 with its cohort
  and student; school 4 is granted but fails to load; the school is cleared.
\<close>

theorem cascade_invariant_witness:
  "all_null (initial_state\<lparr> currentUser := Some guest_user \<rparr>) \<and>
   all_parent_selected (initial_state\<lparr> currentUser := Some guest_user \<rparr>)
     [SelectSchool (Some 1) True (Resolved (empty_bundle, None)),
      SelectCurriculum (Some 9), SelectCollection (Some 8), SelectCourse (Some 7),
      SelectChapter (Some 5), SelectCohort (Some 2), SelectStudent (Some 3) (Resolved []),
      SelectSchool (Some 2) False (Resolved (empty_bundle, None)),
      SelectCourse (Some 6), SelectSchool (Some 4) True (Rejected ''offline''),
      SelectSchool None True (Rejected ''offline'')] \<and>
   list_all cascade_ok
     (states_after (initial_state\<lparr> currentUser := Some guest_user \<rparr>)
        [SelectSchool (Some 1) True (Resolved (empty_bundle, None)),
         SelectCurriculum (Some 9), SelectCollection (Some 8), SelectCourse (Some 7),
         SelectChapter (Some 5), SelectCohort (Some 2), SelectStudent (Some 3) (Resolved []),
         SelectSchool (Some 2) False (Resolved (empty_bundle, None)),
         SelectCourse (Some 6), SelectSchool (Some 4) True (Rejected ''offline''),
         SelectSchool None True (Rejected ''offline'')]) \<and>
   selectedStudentId
     (apply_call (SelectSchool (Some 2) False (Resolved (empty_bundle, None)))
        (initial_state\<lparr> currentUser := Some guest_user, selectedSchoolId := Some 1,
                        selectedStudentId := Some 3 \<rparr>)) = Some 3 \<and>
   selectedSchoolId
     (apply_call (SelectSchool (Some 2) False (Resolved (empty_bundle, None)))
        (initial_state\<lparr> currentUser := Some guest_user, selectedSchoolId := Some 1,
                        selectedStudentId := Some 3 \<rparr>)) = Some 1"
proof -
  let ?st = "initial_state\<lparr> currentUser := Some guest_user \<rparr>"
  let ?calls = "[SelectSchool (Some 1) True (Resolved (empty_bundle, None)),
      SelectCurriculum (Some 9), SelectCollection (Some 8), SelectCourse (Some 7),
      SelectChapter (Some 5), SelectCohort (Some 2), SelectStudent (Some 3) (Resolved []),
      SelectSchool (Some 2) False (Resolved (empty_bundle, None)),
      SelectCourse (Some 6), SelectSchool (Some 4) True (Rejected ''offline''),
      SelectSchool None True (Rejected ''offline'')]"
  have n: "all_null ?st"
    by (simp add: all_null_def initial_state_def)
  have h: "all_parent_selected ?st ?calls"
    by (simp add: handleSchoolSelection_ids handleSchoolSelection_filters
        handleCohortSelection_ids handleStudentSelection_ids
        handleCurriculumSelection_def handleCollectionSelection_def
        handleCourseSelection_def handleChapterSelection_def
        initial_state_def truthy_def access_refused_def guest_user_def)
  have r: "selectedStudentId
     (apply_call (SelectSchool (Some 2) False (Resolved (empty_bundle, None)))
        (initial_state\<lparr> currentUser := Some guest_user, selectedSchoolId := Some 1,
                        selectedStudentId := Some 3 \<rparr>)) = Some 3 \<and>
   selectedSchoolId
     (apply_call (SelectSchool (Some 2) False (Resolved (empty_bundle, None)))
        (initial_state\<lparr> currentUser := Some guest_user, selectedSchoolId := Some 1,
                        selectedStudentId := Some 3 \<rparr>)) = Some 1"
    by (simp add: handleSchoolSelection_ids initial_state_def truthy_def access_refused_def
        guest_user_def)
  from cascade_invariant [OF n h] have "list_all cascade_ok (states_after ?st ?calls)"
    unfolding list_all_iff .
  with n h r show ?thesis by blast
qed

subsection \<open>Late responses of the student fetch\<close>

lemma run_two_selections:
  assumes "truthy x" and "truthy y"
  shows "run [Select x, Select y, Arrive a (Resolved first), Arrive b (Resolved second)] st =
           st\<lparr> studentLoading := False, error := None, selectedStudentId := y,
               individualStudentData := Some second \<rparr>"
  using assms
  by (simp add: handleStudentSelection_begin_def handleStudentSelection_settle_def)

text \<open>
  C9, as stated, fails: the continuation of \<open>handleStudentSelection\<close> stores
  whatever response arrives.  Student 1 is selected, then student 2; the records
  of student 2 arrive, then those of student 1: student 2 stays selected and the
  held records are those of student 1.
\<close>

theorem stale_response_counterexample:
  "individualStudentData
     (run [Select (Some 1), Select (Some 2),
           Arrive 2 (Resolved [sample_lesson 20 5 1 ''Emergency Medicine'' 9 None]),
           Arrive 1 (Resolved [sample_lesson 10 5 1 ''Emergency Medicine'' 9 None])]
        initial_state)
     = Some [sample_lesson 10 5 1 ''Emergency Medicine'' 9 None] \<and>
   selectedStudentId
     (run [Select (Some 1), Select (Some 2),
           Arrive 2 (Resolved [sample_lesson 20 5 1 ''Emergency Medicine'' 9 None]),
           Arrive 1 (Resolved [sample_lesson 10 5 1 ''Emergency Medicine'' 9 None])]
        initial_state)
     = Some 2 \<and>
   sample_lesson 10 5 1 ''Emergency Medicine'' 9 None \<noteq>
     sample_lesson 20 5 1 ''Emergency Medicine'' 9 None"
  by (simp add: handleStudentSelection_begin_def handleStudentSelection_settle_def
      truthy_def sample_lesson_def)

text \<open>
  C9, amended.  When a fetch is issued for student X and, before it resolves,
  student Y is selected, then after both responses have arrived student Y is
  selected and the held lesson records are those of the response that arrived
  last: they are Y's records when X's response arrives first, and X's records
  when X's response arrives last.  No response is discarded.
\<close>

theorem last_response_wins:
  assumes "truthy x" and "truthy y"
  shows "individualStudentData
           (run [Select x, Select y, Arrive x' (Resolved dataX), Arrive y' (Resolved dataY)] st)
           = Some dataY \<and>
         individualStudentData
           (run [Select x, Select y, Arrive y' (Resolved dataY), Arrive x' (Resolved dataX)] st)
           = Some dataX \<and>
         selectedStudentId
           (run [Select x, Select y, Arrive x' (Resolved dataX), Arrive y' (Resolved dataY)] st)
           = y \<and>
         selectedStudentId
           (run [Select x, Select y, Arrive y' (Resolved dataY), Arrive x' (Resolved dataX)] st)
           = y"
  unfolding run_two_selections [OF assms] by simp

theorem last_response_wins_witness:
  "truthy (Some 1) \<and> truthy (Some 2) \<and>
   individualStudentData
     (run [Select (Some 1), Select (Some 2), Arrive 1 (Resolved []),
           Arrive 2 (Resolved [sample_lesson 20 5 1 ''Emergency Medicine'' 9 None])]
        initial_state)
     = Some [sample_lesson 20 5 1 ''Emergency Medicine'' 9 None]"
proof -
  have h1: "truthy (Some 1)" and h2: "truthy (Some 2)"
    by (simp_all add: truthy_def)
  from last_response_wins [OF h1 h2, of 1 "[]" 2
         "[sample_lesson 20 5 1 ''Emergency Medicine'' 9 None]" initial_state] h1 h2
  show ?thesis by simp
qed

section \<open>Properties of the resolver and of the filtered metrics\<close>

subsection \<open>Student metrics take precedence\<close>

lemma calculatedStudentMetrics_Some_truthy:
  "calculatedStudentMetrics st = Some m \<Longrightarrow> truthy (selectedStudentId st)"
  by (simp add: calculatedStudentMetrics_def split: if_splits)

lemma calculatedStudentMetrics_tables:
  "calculatedStudentMetrics
     (st\<lparr> selectedCohortId := cohortId,
         schoolAggregates := s1, curriculumAggregates := s2, collectionAggregates := s3,
         courseAggregates := s4, chapterAggregates := s5, studentAggregates := s6,
         cohortAggregates := c1, cohortCurriculumAggregates := c2,
         cohortCollectionAggregates := c3, cohortCourseAggregates := c4,
         cohortChapterAggregates := c5, cohortStudentAggregates := c6 \<rparr>)
   = calculatedStudentMetrics st"
  by (simp add: calculatedStudentMetrics_def filteredData_def student_title_def Let_def
      split: option.split)

lemma currentAggregate_metrics:
  "calculatedStudentMetrics st = Some m \<Longrightarrow> currentAggregate st = Some m"
  by (frule calculatedStudentMetrics_Some_truthy) (simp add: currentAggregate_def)

text \<open>
  C1.  For every selection state in which a student is selected and the filtered
  student metrics, computed from that student's lesson records, are available
  (not null), \<open>currentAggregate\<close> returns exactly those metrics; and it still
  returns them when the selected cohort id, the six school-scoped tables and the
  six cohort-scoped tables are replaced by any others.
\<close>

theorem resolver_student_precedence:
  assumes "selectedStudentId st \<noteq> None"
    and "calculatedStudentMetrics st = Some m"
  shows "currentAggregate st = Some m \<and>
         currentAggregate
           (st\<lparr> selectedCohortId := cohortId,
               schoolAggregates := s1, curriculumAggregates := s2,
               collectionAggregates := s3, courseAggregates := s4,
               chapterAggregates := s5, studentAggregates := s6,
               cohortAggregates := c1, cohortCurriculumAggregates := c2,
               cohortCollectionAggregates := c3, cohortCourseAggregates := c4,
               cohortChapterAggregates := c5, cohortStudentAggregates := c6 \<rparr>)
           = Some m"
proof
  show "currentAggregate st = Some m"
    using assms(2) by (rule currentAggregate_metrics)
next
  let ?st' = "st\<lparr> selectedCohortId := cohortId,
               schoolAggregates := s1, curriculumAggregates := s2,
               collectionAggregates := s3, courseAggregates := s4,
               chapterAggregates := s5, studentAggregates := s6,
               cohortAggregates := c1, cohortCurriculumAggregates := c2,
               cohortCollectionAggregates := c3, cohortCourseAggregates := c4,
               cohortChapterAggregates := c5, cohortStudentAggregates := c6 \<rparr>"
  have "calculatedStudentMetrics ?st' = Some m"
    using assms(2) by (simp only: calculatedStudentMetrics_tables)
  then show "currentAggregate ?st' = Some m"
    by (rule currentAggregate_metrics)
qed

lemma student_view_metrics:
  "calculatedStudentMetrics student_view =
     Some \<lparr> totalLessons = 2, totalCompleted = 1, requiredLessons = 2,
            requiredCompleted = 1, title = ''Student Progress'' \<rparr>"
  by (simp add: calculatedStudentMetrics_def student_view_def initial_state_def
      filteredData_def student_title_def truthy_def truthy_str_def sample_lesson_def)

theorem resolver_student_precedence_witness:
  "selectedStudentId student_view \<noteq> None \<and>
   calculatedStudentMetrics student_view =
     Some \<lparr> totalLessons = 2, totalCompleted = 1, requiredLessons = 2,
            requiredCompleted = 1, title = ''Student Progress'' \<rparr> \<and>
   currentAggregate student_view =
     Some \<lparr> totalLessons = 2, totalCompleted = 1, requiredLessons = 2,
            requiredCompleted = 1, title = ''Student Progress'' \<rparr>"
proof -
  have h1: "selectedStudentId student_view \<noteq> None"
    by (simp add: student_view_def initial_state_def)
  from resolver_student_precedence [OF h1 student_view_metrics] h1 student_view_metrics
  show ?thesis by simp
qed

subsection \<open>No matching row\<close>



lemma unselect_zero_truthy:
  "unselect_zero x \<noteq> None \<longleftrightarrow> truthy x"
  "(\<exists>y. unselect_zero x = Some y) \<longleftrightarrow> truthy x"
  "unselect_zero x = None \<longleftrightarrow> \<not> truthy x"
  "truthy x \<Longrightarrow> unselect_zero x = x"
  by (cases x; simp add: unselect_zero_def truthy_def)+

lemma no_zero_id_unselected: "no_zero_id st \<Longrightarrow> zero_ids_unselected st = st"
  by (simp add: no_zero_id_def zero_ids_unselected_def unselect_zero_def)





subsection \<open>One filter, the most specific\<close>

lemma filteredData_chapter_only:
  "truthy (selectedChapterId st) \<Longrightarrow>
   filteredData (st\<lparr> selectedCourseId := a, selectedCollectionId := b,
                     selectedCurriculumId := c \<rparr>) ls = filteredData st ls"
  by (simp add: filteredData_def)

lemma calculatedStudentMetrics_chapter_only:
  "truthy (selectedChapterId st) \<Longrightarrow>
   calculatedStudentMetrics (st\<lparr> selectedCourseId := a, selectedCollectionId := b,
                                 selectedCurriculumId := c \<rparr>) = calculatedStudentMetrics st"
  by (simp add: calculatedStudentMetrics_def filteredData_def student_title_def Let_def
      split: option.split)

lemma calculatedStudentMetrics_counts:
  assumes "truthy (selectedStudentId st)" and "individualStudentData st = Some ls"
  shows "\<exists>m. calculatedStudentMetrics st = Some m \<and>
           totalLessons m = int (length (filteredData st ls)) \<and>
           totalCompleted m =
             int (length (filter (\<lambda>l. truthy_str (completion_date l)) (filteredData st ls))) \<and>
           requiredLessons m = int (length (filter is_required (filteredData st ls))) \<and>
           requiredCompleted m =
             int (length (filter (\<lambda>l. is_required l \<and> truthy_str (completion_date l))
                            (filteredData st ls)))"
  using assms by (simp add: calculatedStudentMetrics_def Let_def)

lemma filteredData_spec:
  "filteredData st ls = spec_filteredData (zero_ids_unselected st) ls"
proof -
  have sel: "\<And>x. truthy x \<Longrightarrow> unselect_zero x = x"
    by (rule unselect_zero_truthy(4))
  show ?thesis
    unfolding filteredData_def spec_filteredData_def zero_ids_unselected_def
    by (simp add: unselect_zero_truthy(1,2,3) sel)
qed

text \<open>
  C4, as stated, fails: the filter is chosen by truthiness, so a held id of 0 is
  passed over.  With chapter id 0 and course id 3 held, the chapter filter would
  keep no record (no lesson has chapter id 0), but the code filters by the course
  and keeps both lessons; and the course id then has an effect: with course 4 in
  its place no record is kept.
\<close>

theorem filter_specificity_counterexample:
  "selectedChapterId
     (handleChapterSelection (Some 0) (handleCourseSelection (Some 3) student_view)) = Some 0 \<and>
   filteredData
     (handleChapterSelection (Some 0) (handleCourseSelection (Some 3) student_view))
     [sample_lesson 10 5 1 ''Emergency Medicine'' 7 (Some ''2024-01-01''),
      sample_lesson 11 6 1 ''Emergency Medicine'' 9 None]
     = [sample_lesson 10 5 1 ''Emergency Medicine'' 7 (Some ''2024-01-01''),
        sample_lesson 11 6 1 ''Emergency Medicine'' 9 None] \<and>
   spec_filteredData
     (handleChapterSelection (Some 0) (handleCourseSelection (Some 3) student_view))
     [sample_lesson 10 5 1 ''Emergency Medicine'' 7 (Some ''2024-01-01''),
      sample_lesson 11 6 1 ''Emergency Medicine'' 9 None]
     = [] \<and>
   filteredData
     (handleChapterSelection (Some 0) (handleCourseSelection (Some 4) student_view))
     [sample_lesson 10 5 1 ''Emergency Medicine'' 7 (Some ''2024-01-01''),
      sample_lesson 11 6 1 ''Emergency Medicine'' 9 None]
     = []"
  by (simp add: handleChapterSelection_def handleCourseSelection_def student_view_def
      initial_state_def filteredData_def spec_filteredData_def truthy_def sample_lesson_def)

text \<open>
  C4, amended.  For every list of lesson records and every combination of the four
  filter ids, the filtered metrics are counted over the records kept by exactly
  one filter, chosen by specificity among the ids that are set, where an id is
  set when it is neither null nor 0 (a held id of 0 counts as not set): the
  chapter filter if the chapter id is set, else the course filter, else the
  collection filter, else the curriculum filter, else no filter.  So the records
  kept are those the specification's rule keeps once ids of 0 are read as null,
  and they are the specification's whenever no held id is 0.  In particular, when
  a chapter id is set the records kept, and the metrics, do not change when the
  course, collection and curriculum ids are replaced by any others.
\<close>

theorem filter_specificity:
  "(truthy (selectedStudentId st) \<and> individualStudentData st = Some ls \<longrightarrow>
      (\<exists>m. calculatedStudentMetrics st = Some m \<and>
           totalLessons m = int (length (filteredData st ls)) \<and>
           totalCompleted m =
             int (length (filter (\<lambda>l. truthy_str (completion_date l)) (filteredData st ls))) \<and>
           requiredLessons m = int (length (filter is_required (filteredData st ls))) \<and>
           requiredCompleted m =
             int (length (filter (\<lambda>l. is_required l \<and> truthy_str (completion_date l))
                            (filteredData st ls))))) \<and>
   (truthy (selectedChapterId st) \<longrightarrow>
      filteredData st ls = filter (\<lambda>l. Some (chapter_id l) = selectedChapterId st) ls) \<and>
   (\<not> truthy (selectedChapterId st) \<and> truthy (selectedCourseId st) \<longrightarrow>
      filteredData st ls = filter (\<lambda>l. Some (course_id l) = selectedCourseId st) ls) \<and>
   (\<not> truthy (selectedChapterId st) \<and> \<not> truthy (selectedCourseId st) \<and>
    truthy (selectedCollectionId st) \<longrightarrow>
      filteredData st ls = filter (\<lambda>l. Some (collection_id l) = selectedCollectionId st) ls) \<and>
   (\<not> truthy (selectedChapterId st) \<and> \<not> truthy (selectedCourseId st) \<and>
    \<not> truthy (selectedCollectionId st) \<and> truthy (selectedCurriculumId st) \<longrightarrow>
      filteredData st ls = filter (\<lambda>l. Some (curriculum_id l) = selectedCurriculumId st) ls) \<and>
   (\<not> truthy (selectedChapterId st) \<and> \<not> truthy (selectedCourseId st) \<and>
    \<not> truthy (selectedCollectionId st) \<and> \<not> truthy (selectedCurriculumId st) \<longrightarrow>
      filteredData st ls = ls) \<and>
   (truthy (selectedChapterId st) \<longrightarrow>
      filteredData (st\<lparr> selectedCourseId := a, selectedCollectionId := b,
                        selectedCurriculumId := c \<rparr>) ls = filteredData st ls \<and>
      calculatedStudentMetrics (st\<lparr> selectedCourseId := a, selectedCollectionId := b,
                                    selectedCurriculumId := c \<rparr>) =
        calculatedStudentMetrics st) \<and>
   filteredData st ls = spec_filteredData (zero_ids_unselected st) ls \<and>
   (no_zero_id st \<longrightarrow> filteredData st ls = spec_filteredData st ls)"
proof (intro conjI impI)
  show "filteredData st ls = spec_filteredData (zero_ids_unselected st) ls"
    by (rule filteredData_spec)
next
  assume "no_zero_id st"
  then show "filteredData st ls = spec_filteredData st ls"
    using filteredData_spec [of st ls] by (simp add: no_zero_id_unselected)
next
  assume "truthy (selectedStudentId st) \<and> individualStudentData st = Some ls"
  then show "\<exists>m. calculatedStudentMetrics st = Some m \<and>
           totalLessons m = int (length (filteredData st ls)) \<and>
           totalCompleted m =
             int (length (filter (\<lambda>l. truthy_str (completion_date l)) (filteredData st ls))) \<and>
           requiredLessons m = int (length (filter is_required (filteredData st ls))) \<and>
           requiredCompleted m =
             int (length (filter (\<lambda>l. is_required l \<and> truthy_str (completion_date l))
                            (filteredData st ls)))"
    using calculatedStudentMetrics_counts by blast
qed (simp_all add: filteredData_def filteredData_chapter_only
      calculatedStudentMetrics_chapter_only)

text \<open>
  The example of the specification: chapter 5 and curriculum 9 are both set.  The
  first lesson held is of chapter 5 and curriculum 7, the second of chapter 6 and
  curriculum 9; only the first is kept, so the curriculum id plays no part.
  With the chapter id cleared, the curriculum filter keeps only the second.
\<close>

theorem filter_specificity_witness:
  "truthy (selectedStudentId
            (student_view\<lparr> selectedChapterId := Some 5, selectedCurriculumId := Some 9 \<rparr>)) \<and>
   truthy (selectedChapterId
            (student_view\<lparr> selectedChapterId := Some 5, selectedCurriculumId := Some 9 \<rparr>)) \<and>
   filteredData (student_view\<lparr> selectedChapterId := Some 5, selectedCurriculumId := Some 9 \<rparr>)
     [sample_lesson 10 5 1 ''Emergency Medicine'' 7 (Some ''2024-01-01''),
      sample_lesson 11 6 1 ''Emergency Medicine'' 9 None]
     = [sample_lesson 10 5 1 ''Emergency Medicine'' 7 (Some ''2024-01-01'')] \<and>
   calculatedStudentMetrics
     (student_view\<lparr> selectedChapterId := Some 5, selectedCurriculumId := Some 9 \<rparr>)
     = Some \<lparr> totalLessons = 1, totalCompleted = 1, requiredLessons = 1,
              requiredCompleted = 1, title = ''Student: Chapter A'' \<rparr> \<and>
   \<not> truthy (selectedChapterId (student_view\<lparr> selectedCurriculumId := Some 9 \<rparr>)) \<and>
   \<not> truthy (selectedCourseId (student_view\<lparr> selectedCurriculumId := Some 9 \<rparr>)) \<and>
   \<not> truthy (selectedCollectionId (student_view\<lparr> selectedCurriculumId := Some 9 \<rparr>)) \<and>
   truthy (selectedCurriculumId (student_view\<lparr> selectedCurriculumId := Some 9 \<rparr>)) \<and>
   filteredData (student_view\<lparr> selectedCurriculumId := Some 9 \<rparr>)
     [sample_lesson 10 5 1 ''Emergency Medicine'' 7 (Some ''2024-01-01''),
      sample_lesson 11 6 1 ''Emergency Medicine'' 9 None]
     = [sample_lesson 11 6 1 ''Emergency Medicine'' 9 None] \<and>
   no_zero_id (student_view\<lparr> selectedChapterId := Some 5, selectedCurriculumId := Some 9 \<rparr>) \<and>
   spec_filteredData
     (student_view\<lparr> selectedChapterId := Some 5, selectedCurriculumId := Some 9 \<rparr>)
     [sample_lesson 10 5 1 ''Emergency Medicine'' 7 (Some ''2024-01-01''),
      sample_lesson 11 6 1 ''Emergency Medicine'' 9 None]
     = [sample_lesson 10 5 1 ''Emergency Medicine'' 7 (Some ''2024-01-01'')]"
proof -
  let ?ls = "[sample_lesson 10 5 1 ''Emergency Medicine'' 7 (Some ''2024-01-01''),
              sample_lesson 11 6 1 ''Emergency Medicine'' 9 None]"
  let ?both = "student_view\<lparr> selectedChapterId := Some 5, selectedCurriculumId := Some 9 \<rparr>"
  let ?cur = "student_view\<lparr> selectedCurriculumId := Some 9 \<rparr>"
  have ids:
    "selectedStudentId ?both = Some 3" "selectedChapterId ?both = Some 5"
    "individualStudentData ?both = Some ?ls"
    "selectedChapterId ?cur = None" "selectedCourseId ?cur = None"
    "selectedCollectionId ?cur = None" "selectedCurriculumId ?cur = Some 9"
    by (simp_all add: student_view_def initial_state_def)
  have t: "truthy (Some 3)" "truthy (Some 5)" "truthy (Some 9)" "\<not> truthy None"
    by (simp_all add: truthy_def)
  have kept: "filter (\<lambda>l. Some (chapter_id l) = Some 5) ?ls
                = [sample_lesson 10 5 1 ''Emergency Medicine'' 7 (Some ''2024-01-01'')]"
    "filter (\<lambda>l. Some (curriculum_id l) = Some 9) ?ls
                = [sample_lesson 11 6 1 ''Emergency Medicine'' 9 None]"
    by (simp_all add: sample_lesson_def)
  have m: "calculatedStudentMetrics ?both
     = Some \<lparr> totalLessons = 1, totalCompleted = 1, requiredLessons = 1,
              requiredCompleted = 1, title = ''Student: Chapter A'' \<rparr>"
    by (simp add: calculatedStudentMetrics_def student_view_def initial_state_def
        filteredData_def student_title_def first_name_or_def truthy_def truthy_str_def
        sample_lesson_def)
  have nz: "no_zero_id ?both"
    by (simp add: no_zero_id_def student_view_def initial_state_def)
  have sp: "spec_filteredData ?both ?ls
              = [sample_lesson 10 5 1 ''Emergency Medicine'' 7 (Some ''2024-01-01'')]"
    by (simp add: spec_filteredData_def student_view_def initial_state_def sample_lesson_def)
  from filter_specificity [of ?both ?ls] filter_specificity [of ?cur ?ls] ids t kept m nz sp
  show ?thesis by simp
qed

section \<open>Properties of the per-student grouping\<close>

subsection \<open>Keys are injective\<close>

lemma digit_char_inj:
  assumes "d < 10" and "e < 10" and "digit_char d = digit_char e"
  shows "d = e"
proof -
  from assms(3) have "(48 + d) mod 256 = (48 + e) mod 256"
    unfolding digit_char_def by (simp only: char_of_quasi_inj)
  with assms(1,2) show ?thesis by simp
qed

lemma digit_char_not_minus:
  assumes "d < 10"
  shows "digit_char d \<noteq> CHR ''-''"
proof
  assume "digit_char d = CHR ''-''"
  then have "take_bit 8 (48 + d) = (of_char (CHR ''-'') :: nat)"
    unfolding digit_char_def by (simp only: char_of_eq_iff)
  moreover have "(of_char (CHR ''-'') :: nat) = 45"
    by simp
  ultimately have "(48 + d) mod 256 = 45"
    by (simp only: take_bit_eq_mod) simp
  with assms show False by simp
qed

lemma digits_small: "n < 10 \<Longrightarrow> digits n = [digit_char n]"
  by (subst digits.simps) simp

lemma digits_large: "\<not> n < 10 \<Longrightarrow> digits n = digits (n div 10) @ [digit_char (n mod 10)]"
  by (subst digits.simps) simp

lemma digits_not_Nil: "digits n \<noteq> []"
  by (cases "n < 10") (simp_all add: digits_small digits_large)

lemma minus_notin_digits: "CHR ''-'' \<notin> set (digits n)"
proof (induction n rule: digits.induct)
  case (1 n)
  show ?case
  proof (cases "n < 10")
    case True
    then show ?thesis
      using digit_char_not_minus [of n] by (auto simp: digits_small)
  next
    case False
    with 1 show ?thesis
      using digit_char_not_minus [of "n mod 10"] by (auto simp: digits_large)
  qed
qed

lemma digits_inj: "digits n = digits m \<Longrightarrow> n = m"
proof (induction n arbitrary: m rule: digits.induct)
  case (1 n)
  show ?case
  proof (cases "n < 10")
    case n: True
    show ?thesis
    proof (cases "m < 10")
      case True
      with n "1.prems" show ?thesis
        by (simp add: digits_small digit_char_inj)
    next
      case False
      with n "1.prems" show ?thesis
        using digits_not_Nil [of "m div 10"] by (simp add: digits_small digits_large)
    qed
  next
    case n: False
    show ?thesis
    proof (cases "m < 10")
      case True
      with n "1.prems" show ?thesis
        using digits_not_Nil [of "n div 10"] by (simp add: digits_small digits_large)
    next
      case False
      with n "1.prems" have "digits (n div 10) = digits (m div 10)"
        and d: "digit_char (n mod 10) = digit_char (m mod 10)"
        by (simp_all add: digits_large)
      with "1.IH" [OF n] have "n div 10 = m div 10" by simp
      moreover from d have "n mod 10 = m mod 10"
        by (simp add: digit_char_inj)
      ultimately show ?thesis
        by (metis div_mult_mod_eq)
    qed
  qed
qed

lemma split_at_separator:
  assumes "xs @ c # ys = xs' @ c # ys'" and "c \<notin> set xs" and "c \<notin> set xs'"
  shows "xs = xs' \<and> ys = ys'"
  using assms
proof (induction xs arbitrary: xs')
  case Nil
  then show ?case by (cases xs') auto
next
  case (Cons x xs)
  then show ?case by (cases xs') auto
qed

lemma group_key_inj:
  assumes "group_key a s = group_key b t"
  shows "a = b \<and> s = t"
proof -
  have hd_digit: "hd (digits n) \<noteq> CHR ''-''" for n
    using minus_notin_digits [of n] digits_not_Nil [of n] by (cases "digits n") auto
  consider "a < 0" "b < 0" | "a < 0" "\<not> b < 0" | "\<not> a < 0" "b < 0" | "\<not> a < 0" "\<not> b < 0"
    by blast
  then show ?thesis
  proof cases
    case 1
    with assms have "digits (nat (- a)) @ CHR ''-'' # s = digits (nat (- b)) @ CHR ''-'' # t"
      by (simp add: group_key_def number_to_string_def)
    then have "digits (nat (- a)) = digits (nat (- b)) \<and> s = t"
      by (rule split_at_separator) (rule minus_notin_digits)+
    with 1 show ?thesis by (auto dest: digits_inj)
  next
    case 2
    with assms have "CHR ''-'' # digits (nat (- a)) @ CHR ''-'' # s = digits (nat b) @ CHR ''-'' # t"
      by (simp add: group_key_def number_to_string_def)
    then have "hd (digits (nat b)) = CHR ''-''"
      using digits_not_Nil [of "nat b"] by (cases "digits (nat b)") auto
    with hd_digit show ?thesis by blast
  next
    case 3
    with assms have "digits (nat a) @ CHR ''-'' # s = CHR ''-'' # digits (nat (- b)) @ CHR ''-'' # t"
      by (simp add: group_key_def number_to_string_def)
    then have "hd (digits (nat a)) = CHR ''-''"
      using digits_not_Nil [of "nat a"] by (cases "digits (nat a)") auto
    with hd_digit show ?thesis by blast
  next
    case 4
    with assms have "digits (nat a) @ CHR ''-'' # s = digits (nat b) @ CHR ''-'' # t"
      by (simp add: group_key_def number_to_string_def)
    then have "digits (nat a) = digits (nat b) \<and> s = t"
      by (rule split_at_separator) (rule minus_notin_digits)+
    with 4 show ?thesis by (auto dest: digits_inj)
  qed
qed

subsection \<open>The map operations on a map laid out by its keys\<close>

text \<open>
  A map whose entries are \<open>(key k, f k)\<close> for the \<open>k\<close> of a list \<open>ks\<close>, with an
  injective \<open>key\<close>.
\<close>

lemma map_has_layout:
  assumes "inj key"
  shows "map_has (map (\<lambda>k. (key k, f k)) ks) (key k) \<longleftrightarrow> k \<in> set ks"
proof -
  have "map_of (map (\<lambda>k. (key k, f k)) ks) (key k) \<noteq> None \<longleftrightarrow> key k \<in> key ` set ks"
    by (simp add: map_of_eq_None_iff image_image)
  also have "\<dots> \<longleftrightarrow> k \<in> set ks"
    using assms by (auto dest: injD)
  finally show ?thesis by (simp add: map_has_def)
qed

lemma map_set_layout:
  assumes "inj key" and "k \<notin> set ks"
  shows "map_set (map (\<lambda>k. (key k, f k)) ks) (key k) v =
           map (\<lambda>k. (key k, f k)) ks @ [(key k, v)]"
  using assms by (induction ks) (auto dest: injD)

lemma map_mutate_layout:
  assumes "inj key" and "distinct ks"
  shows "map_mutate (map (\<lambda>k. (key k, f k)) ks) (key k) g =
           map (\<lambda>k'. (key k', if k' = k then g (f k') else f k')) ks"
  using assms by (induction ks) (auto dest: injD)

lemma inj_pair_key: "inj pair_key"
  by (rule injI) (auto simp: pair_key_def prod_eq_iff dest: group_key_inj)

text \<open>One step of the loop on a map laid out by the pairs \<open>ks\<close>.\<close>

lemma aggregate_level_layout:
  assumes "distinct ks"
  shows "aggregate_level i n c (map (\<lambda>k. (pair_key k, f k)) ks) =
           map (\<lambda>k. (pair_key k,
                      if k = (i, n)
                      then (let g = (if (i, n) \<in> set ks then f k
                                     else \<lparr> group_id = i, group_name = n,
                                            total_lessons = 0, completed_lessons = 0 \<rparr>)
                            in g\<lparr> total_lessons := total_lessons g + 1,
                                 completed_lessons :=
                                   (if truthy_str c then completed_lessons g + 1
                                    else completed_lessons g) \<rparr>)
                      else f k))
               (if (i, n) \<in> set ks then ks else ks @ [(i, n)])"
proof -
  let ?zero = "\<lparr> group_id = i, group_name = n, total_lessons = 0, completed_lessons = 0 \<rparr>"
  have key: "group_key i n = pair_key (i, n)"
    by (simp add: pair_key_def)
  show ?thesis
  proof (cases "(i, n) \<in> set ks")
    case True
    then have m1: "(if \<not> map_has (map (\<lambda>k. (pair_key k, f k)) ks) (pair_key (i, n))
             then map_set (map (\<lambda>k. (pair_key k, f k)) ks) (pair_key (i, n)) ?zero
             else map (\<lambda>k. (pair_key k, f k)) ks)
            = map (\<lambda>k. (pair_key k, f k)) ks"
      by (simp add: map_has_layout [OF inj_pair_key])
    show ?thesis
      unfolding aggregate_level_def Let_def key m1
      using True
      by (simp add: map_mutate_layout [OF inj_pair_key assms])
  next
    case False
    let ?f1 = "\<lambda>k. if k = (i, n) then ?zero else f k"
    from False have d': "distinct (ks @ [(i, n)])"
      using assms by simp
    from False have "map (\<lambda>k. (pair_key k, f k)) ks = map (\<lambda>k. (pair_key k, ?f1 k)) ks"
      by auto
    with False have m1: "(if \<not> map_has (map (\<lambda>k. (pair_key k, f k)) ks) (pair_key (i, n))
             then map_set (map (\<lambda>k. (pair_key k, f k)) ks) (pair_key (i, n)) ?zero
             else map (\<lambda>k. (pair_key k, f k)) ks)
            = map (\<lambda>k. (pair_key k, ?f1 k)) (ks @ [(i, n)])"
      by (simp add: map_has_layout [OF inj_pair_key] map_set_layout [OF inj_pair_key])
    show ?thesis
      unfolding aggregate_level_def Let_def key m1
      using False
      by (simp only: map_mutate_layout [OF inj_pair_key d']) auto
  qed
qed

subsection \<open>The loop computes the grouping\<close>

lemma group_entry_snoc:
  "group_entry idf namef (ls @ [l]) k =
     (if k = (idf l, namef l)
      then (group_entry idf namef ls k)
             \<lparr> total_lessons := total_lessons (group_entry idf namef ls k) + 1,
               completed_lessons :=
                 (if truthy_str (completion_date l)
                  then completed_lessons (group_entry idf namef ls k) + 1
                  else completed_lessons (group_entry idf namef ls k)) \<rparr>
      else group_entry idf namef ls k)"
  by (auto simp: group_entry_def prod_eq_iff)

lemma group_entry_unseen:
  assumes "k \<notin> (\<lambda>l. (idf l, namef l)) ` set ls"
  shows "group_entry idf namef ls k =
           \<lparr> group_id = fst k, group_name = snd k, total_lessons = 0, completed_lessons = 0 \<rparr>"
proof -
  from assms have "\<forall>l \<in> set ls. \<not> (idf l = fst k \<and> namef l = snd k)"
    by (auto simp: image_iff prod_eq_iff)
  then have "filter (\<lambda>l. idf l = fst k \<and> namef l = snd k) ls = []"
    and "filter (\<lambda>l. idf l = fst k \<and> namef l = snd k \<and> truthy_str (completion_date l)) ls = []"
    by (auto simp: filter_empty_conv)
  then show ?thesis
    by (simp add: group_entry_def)
qed

lemma level_layout:
  "\<exists>ks. distinct ks \<and> set ks = (\<lambda>l. (idf l, namef l)) ` set ls \<and>
        foldl (\<lambda>m l. aggregate_level (idf l) (namef l) (completion_date l) m) [] ls =
          map (\<lambda>k. (pair_key k, group_entry idf namef ls k)) ks"
proof (induction ls rule: rev_induct)
  case Nil
  have "distinct ([] :: (int \<times> string) list) \<and>
        set ([] :: (int \<times> string) list) = (\<lambda>l. (idf l, namef l)) ` set [] \<and>
        foldl (\<lambda>m l. aggregate_level (idf l) (namef l) (completion_date l) m) [] [] =
          map (\<lambda>k. (pair_key k, group_entry idf namef [] k)) []"
    by simp
  then show ?case by blast
next
  case (snoc l ls)
  then obtain ks where d: "distinct ks"
    and s: "set ks = (\<lambda>l. (idf l, namef l)) ` set ls"
    and m: "foldl (\<lambda>m l. aggregate_level (idf l) (namef l) (completion_date l) m) [] ls =
              map (\<lambda>k. (pair_key k, group_entry idf namef ls k)) ks"
    by blast
  let ?k0 = "(idf l, namef l)"
  let ?ks' = "if ?k0 \<in> set ks then ks else ks @ [?k0]"
  have d': "distinct ?ks'" using d by simp
  have s': "set ?ks' = (\<lambda>l. (idf l, namef l)) ` set (ls @ [l])"
    using s by auto
  have unseen: "?k0 \<notin> set ks \<Longrightarrow>
      group_entry idf namef ls ?k0 =
        \<lparr> group_id = idf l, group_name = namef l, total_lessons = 0, completed_lessons = 0 \<rparr>"
    using group_entry_unseen [of ?k0 idf namef ls] s by simp
  have "foldl (\<lambda>m l. aggregate_level (idf l) (namef l) (completion_date l) m) [] (ls @ [l]) =
          aggregate_level (idf l) (namef l) (completion_date l)
            (map (\<lambda>k. (pair_key k, group_entry idf namef ls k)) ks)"
    by (simp add: m)
  also have "\<dots> = map (\<lambda>k. (pair_key k, group_entry idf namef (ls @ [l]) k)) ?ks'"
    unfolding aggregate_level_layout [OF d]
    by (rule map_cong [OF refl]) (auto simp: group_entry_snoc Let_def unseen)
  finally show ?case
    using d' s' by blast
qed

lemma level_is_grouping:
  "is_grouping idf namef ls
     (map_values (foldl (\<lambda>m l. aggregate_level (idf l) (namef l) (completion_date l) m) [] ls))"
proof -
  obtain ks where d: "distinct ks"
    and s: "set ks = (\<lambda>l. (idf l, namef l)) ` set ls"
    and m: "foldl (\<lambda>m l. aggregate_level (idf l) (namef l) (completion_date l) m) [] ls =
              map (\<lambda>k. (pair_key k, group_entry idf namef ls k)) ks"
    using level_layout [of idf namef ls] by blast
  have v: "map_values (map (\<lambda>k. (pair_key k, group_entry idf namef ls k)) ks) =
             map (group_entry idf namef ls) ks"
    by (simp add: map_values_def comp_def)
  have keys: "map (\<lambda>g. (group_id g, group_name g)) (map (group_entry idf namef ls) ks) = ks"
    by (simp add: comp_def group_entry_def)
  show ?thesis
    unfolding is_grouping_def m v keys
    using d s by (auto simp: group_entry_def)
qed

lemma grouping_name:
  assumes s: "set (map (\<lambda>g. (group_id g, group_name g)) gs) = (\<lambda>l. (idf l, namef l)) ` set ls"
    and o: "one_name_per_id idf namef ls"
    and g: "g \<in> set gs" and l: "l \<in> set ls" and e: "idf l = group_id g"
  shows "namef l = group_name g"
proof -
  from g have "(group_id g, group_name g) \<in> set (map (\<lambda>g. (group_id g, group_name g)) gs)"
    by (simp add: image_iff) blast
  with s have "(group_id g, group_name g) \<in> (\<lambda>l. (idf l, namef l)) ` set ls"
    by simp
  then obtain l' where l': "l' \<in> set ls" "idf l' = group_id g" "namef l' = group_name g"
    by (auto simp: image_iff)
  from o l l'(1) have "idf l = idf l' \<longrightarrow> namef l = namef l'"
    unfolding one_name_per_id_def by blast
  with e l' show ?thesis by simp
qed

lemma grouping_ids_distinct:
  assumes d: "distinct (map (\<lambda>g. (group_id g, group_name g)) gs)"
    and s: "set (map (\<lambda>g. (group_id g, group_name g)) gs) = (\<lambda>l. (idf l, namef l)) ` set ls"
    and o: "one_name_per_id idf namef ls"
  shows "distinct (map group_id gs)"
proof -
  have inj: "inj_on fst (set (map (\<lambda>g. (group_id g, group_name g)) gs))"
    unfolding s
  proof (rule inj_onI)
    fix p q
    assume "p \<in> (\<lambda>l. (idf l, namef l)) ` set ls" and "q \<in> (\<lambda>l. (idf l, namef l)) ` set ls"
      and e: "fst p = fst q"
    then obtain l l' where l: "l \<in> set ls" "p = (idf l, namef l)"
      and l': "l' \<in> set ls" "q = (idf l', namef l')"
      by (auto simp: image_iff)
    from o l(1) l'(1) have "idf l = idf l' \<longrightarrow> namef l = namef l'"
      unfolding one_name_per_id_def by blast
    with e l l' show "p = q" by simp
  qed
  from d inj have "distinct (map fst (map (\<lambda>g. (group_id g, group_name g)) gs))"
    by (simp only: distinct_map)
  then show ?thesis
    by (simp add: comp_def)
qed

lemma grouping_by_id:
  assumes "is_grouping idf namef ls gs" and "one_name_per_id idf namef ls"
  shows "is_grouping_by_id idf ls gs"
proof -
  let ?pair = "\<lambda>g. (group_id g, group_name g)"
  from assms(1) have d: "distinct (map ?pair gs)"
    and s: "set (map ?pair gs) = (\<lambda>l. (idf l, namef l)) ` set ls"
    and c: "\<forall>g \<in> set gs.
        total_lessons g =
          int (length (filter (\<lambda>l. idf l = group_id g \<and> namef l = group_name g) ls)) \<and>
        completed_lessons g =
          int (length (filter (\<lambda>l. idf l = group_id g \<and> namef l = group_name g \<and>
                                    truthy_str (completion_date l)) ls))"
    unfolding is_grouping_def by blast+
  have d': "distinct (map group_id gs)"
    using d s assms(2) by (rule grouping_ids_distinct)
  have s': "set (map group_id gs) = idf ` set ls"
  proof -
    have "set (map group_id gs) = fst ` set (map ?pair gs)"
      by (simp add: image_image)
    also have "\<dots> = idf ` set ls"
      unfolding s by (simp add: image_image)
    finally show ?thesis .
  qed
  have c': "\<forall>g \<in> set gs.
        total_lessons g = int (length (filter (\<lambda>l. idf l = group_id g) ls)) \<and>
        completed_lessons g =
          int (length (filter (\<lambda>l. idf l = group_id g \<and> truthy_str (completion_date l)) ls))"
  proof
    fix g
    assume g: "g \<in> set gs"
    have n: "\<And>l. l \<in> set ls \<Longrightarrow> idf l = group_id g \<Longrightarrow> namef l = group_name g"
      using grouping_name [OF s assms(2) g] by blast
    have "filter (\<lambda>l. idf l = group_id g \<and> namef l = group_name g) ls =
          filter (\<lambda>l. idf l = group_id g) ls"
      by (rule filter_cong [OF refl]) (use n in blast)
    moreover have "filter (\<lambda>l. idf l = group_id g \<and> namef l = group_name g \<and>
                                truthy_str (completion_date l)) ls =
          filter (\<lambda>l. idf l = group_id g \<and> truthy_str (completion_date l)) ls"
      by (rule filter_cong [OF refl]) (use n in blast)
    ultimately show "total_lessons g = int (length (filter (\<lambda>l. idf l = group_id g) ls)) \<and>
        completed_lessons g =
          int (length (filter (\<lambda>l. idf l = group_id g \<and> truthy_str (completion_date l)) ls))"
      using c g by simp
  qed
  show ?thesis
    unfolding is_grouping_by_id_def using d' s' c' by (intro conjI)
qed

subsection \<open>The grouping aggregates\<close>

lemma perStudentAggregates_filters:
  "perStudentAggregates
     (st\<lparr> selectedCurriculumId := a, selectedCollectionId := b,
         selectedCourseId := c, selectedChapterId := d \<rparr>) = perStudentAggregates st"
  by (simp add: perStudentAggregates_def)

lemma perStudentAggregates_held:
  assumes "truthy (selectedStudentId st)" and "individualStudentData st = Some ls"
  shows "psa_collectionAggregates (perStudentAggregates st) = map_values (collection_level ls)"
    and "psa_courseAggregates (perStudentAggregates st) = map_values (course_level ls)"
    and "psa_chapterAggregates (perStudentAggregates st) = map_values (chapter_level ls)"
  using assms by (simp_all add: perStudentAggregates_def)

text \<open>
  C5, as stated, fails: the maps are keyed by the string \<open>`${id}-${name}`\<close>,
  not by the id.  Two records of collection 1 that carry different collection
  names give two entries for collection 1, each with one lesson, while two
  records have that collection id.
\<close>

theorem grouping_by_id_counterexample:
  "psa_collectionAggregates (perStudentAggregates renamed_example) =
     [\<lparr> group_id = 1, group_name = ''Emergency Medicine'',
        total_lessons = 1, completed_lessons = 0 \<rparr>,
      \<lparr> group_id = 1, group_name = ''Emergency Med.'',
        total_lessons = 1, completed_lessons = 0 \<rparr>] \<and>
   individualStudentData renamed_example =
     Some [sample_lesson 10 5 1 ''Emergency Medicine'' 9 None,
           sample_lesson 11 5 1 ''Emergency Med.'' 9 None] \<and>
   length (filter (\<lambda>l. collection_id l = 1)
             [sample_lesson 10 5 1 ''Emergency Medicine'' 9 None,
              sample_lesson 11 5 1 ''Emergency Med.'' 9 None]) = 2"
  by code_simp

text \<open>
  C5, amended.  For every list of lesson records held for a selected student, the
  grouping aggregates are computed over the full record set, whatever the four
  filter ids are, as three lists of entries keyed by the pair of the id and the
  name of the collection, of the course and of the chapter: there is one entry
  for each pair that occurs, its \<open>total_lessons\<close> is the number of records with
  that id and that name, and its \<open>completed_lessons\<close> the number of those whose
  completion date is neither null nor empty.  When the records give each id one
  name, this is the grouping by the id alone: one entry for each id, counting the
  records with that id.  In particular the three records of the specification's
  example give total 2, completed 1 for collection 1 and total 1, completed 0 for
  collection 2.
\<close>

theorem grouping_aggregates:
  assumes "truthy (selectedStudentId st)" and "individualStudentData st = Some ls"
  shows "perStudentAggregates
           (st\<lparr> selectedCurriculumId := a, selectedCollectionId := b,
               selectedCourseId := c, selectedChapterId := d \<rparr>) = perStudentAggregates st \<and>
         is_grouping collection_id collection_name ls
           (psa_collectionAggregates (perStudentAggregates st)) \<and>
         is_grouping course_id course_name ls
           (psa_courseAggregates (perStudentAggregates st)) \<and>
         is_grouping chapter_id chapter_name ls
           (psa_chapterAggregates (perStudentAggregates st)) \<and>
         (one_name_per_id collection_id collection_name ls \<longrightarrow>
            is_grouping_by_id collection_id ls
              (psa_collectionAggregates (perStudentAggregates st))) \<and>
         (one_name_per_id course_id course_name ls \<longrightarrow>
            is_grouping_by_id course_id ls
              (psa_courseAggregates (perStudentAggregates st))) \<and>
         (one_name_per_id chapter_id chapter_name ls \<longrightarrow>
            is_grouping_by_id chapter_id ls
              (psa_chapterAggregates (perStudentAggregates st)))"
proof -
  have col: "is_grouping collection_id collection_name ls
               (psa_collectionAggregates (perStudentAggregates st))"
    unfolding perStudentAggregates_held [OF assms] collection_level_def
    by (rule level_is_grouping)
  have cou: "is_grouping course_id course_name ls
               (psa_courseAggregates (perStudentAggregates st))"
    unfolding perStudentAggregates_held [OF assms] course_level_def
    by (rule level_is_grouping)
  have cha: "is_grouping chapter_id chapter_name ls
               (psa_chapterAggregates (perStudentAggregates st))"
    unfolding perStudentAggregates_held [OF assms] chapter_level_def
    by (rule level_is_grouping)
  from col cou cha show ?thesis
    using perStudentAggregates_filters [where st = st and a = a and b = b and c = c and d = d]
      grouping_by_id [OF col] grouping_by_id [OF cou] grouping_by_id [OF cha]
    by blast
qed

theorem grouping_aggregates_witness:
  "truthy (selectedStudentId grouping_example) \<and>
   individualStudentData grouping_example =
     Some [sample_lesson 10 5 1 ''Emergency Medicine'' 9 None,
           sample_lesson 11 5 1 ''Emergency Medicine'' 9 (Some ''2024-01-01''),
           sample_lesson 12 6 2 ''Family Medicine'' 9 None] \<and>
   one_name_per_id collection_id collection_name
     [sample_lesson 10 5 1 ''Emergency Medicine'' 9 None,
      sample_lesson 11 5 1 ''Emergency Medicine'' 9 (Some ''2024-01-01''),
      sample_lesson 12 6 2 ''Family Medicine'' 9 None] \<and>
   psa_collectionAggregates (perStudentAggregates grouping_example) =
     [\<lparr> group_id = 1, group_name = ''Emergency Medicine'',
        total_lessons = 2, completed_lessons = 1 \<rparr>,
      \<lparr> group_id = 2, group_name = ''Family Medicine'',
        total_lessons = 1, completed_lessons = 0 \<rparr>] \<and>
   is_grouping_by_id collection_id
     [sample_lesson 10 5 1 ''Emergency Medicine'' 9 None,
      sample_lesson 11 5 1 ''Emergency Medicine'' 9 (Some ''2024-01-01''),
      sample_lesson 12 6 2 ''Family Medicine'' 9 None]
     [\<lparr> group_id = 1, group_name = ''Emergency Medicine'',
        total_lessons = 2, completed_lessons = 1 \<rparr>,
      \<lparr> group_id = 2, group_name = ''Family Medicine'',
        total_lessons = 1, completed_lessons = 0 \<rparr>]"
proof -
  let ?ls = "[sample_lesson 10 5 1 ''Emergency Medicine'' 9 None,
              sample_lesson 11 5 1 ''Emergency Medicine'' 9 (Some ''2024-01-01''),
              sample_lesson 12 6 2 ''Family Medicine'' 9 None]"
  have h1: "truthy (selectedStudentId grouping_example)"
    by (simp add: grouping_example_def initial_state_def truthy_def)
  have h2: "individualStudentData grouping_example = Some ?ls"
    by (simp add: grouping_example_def initial_state_def)
  have h3: "one_name_per_id collection_id collection_name ?ls"
    by (simp add: one_name_per_id_def sample_lesson_def)
  have v: "psa_collectionAggregates (perStudentAggregates grouping_example) =
     [\<lparr> group_id = 1, group_name = ''Emergency Medicine'',
        total_lessons = 2, completed_lessons = 1 \<rparr>,
      \<lparr> group_id = 2, group_name = ''Family Medicine'',
        total_lessons = 1, completed_lessons = 0 \<rparr>]"
    by code_simp
  from grouping_aggregates [OF h1 h2] h3
  have "is_grouping_by_id collection_id ?ls
          (psa_collectionAggregates (perStudentAggregates grouping_example))"
    by blast
  with h1 h2 h3 v show ?thesis by simp
qed

section \<open>Properties of the display projection\<close>

subsection \<open>The rounding error of a binary64 operation\<close>

lemma pow2_power_int: "pow2 e = power_int 2 e"
  by (simp add: pow2_def power_int_def power_one_over inverse_eq_divide)

lemma pow2_pos: "0 < pow2 e"
  by (simp add: pow2_power_int)

lemma pow2_shift: "pow2 (e - int k) = pow2 e / 2 ^ k"
  by (simp add: pow2_power_int power_int_diff)

text \<open>The binade brackets its argument between two powers of two.\<close>

lemma pow2_binade_le:
  assumes "0 < x"
  shows "pow2 (binade x) \<le> x"
proof -
  obtain p q where pq: "quotient_of x = (p, q)"
    by (cases "quotient_of x")
  then have x: "x = of_int p / of_int q" and q: "0 < q"
    by (simp_all add: quotient_of_div quotient_of_denom_pos)
  with assms have p: "0 < p"
    by (simp add: zero_less_divide_iff)
  let ?d = "bitlen p - bitlen q"
  show ?thesis
  proof (cases "pow2 ?d \<le> x")
    case True
    then show ?thesis
      by (simp add: binade_def pq)
  next
    case False
    from bitlen_bounds [OF p] have "2 ^ nat (bitlen p - 1) \<le> p"
      by simp
    then have "(of_int (2 ^ nat (bitlen p - 1)) :: rat) \<le> of_int p"
      by (simp only: of_int_le_iff)
    then have lo: "(2 :: rat) ^ nat (bitlen p - 1) \<le> of_int p"
      by simp
    from bitlen_bounds [OF q] have "q < 2 ^ nat (bitlen q)"
      by simp
    then have "(of_int q :: rat) < of_int (2 ^ nat (bitlen q))"
      by (simp only: of_int_less_iff)
    then have hi: "(of_int q :: rat) \<le> 2 ^ nat (bitlen q)"
      by simp
    have bp: "1 \<le> bitlen p"
      using p by (simp add: bitlen_alt_def)
    have bq: "0 \<le> bitlen q"
      by (rule bitlen_nonneg)
    have "?d - 1 = (bitlen p - 1) - bitlen q"
      by simp
    then have "pow2 (?d - 1) = power_int 2 ((bitlen p - 1) - bitlen q)"
      by (simp only: pow2_power_int)
    also have "\<dots> = power_int 2 (bitlen p - 1) / power_int 2 (bitlen q)"
      by (rule power_int_diff) simp
    also have "\<dots> = 2 ^ nat (bitlen p - 1) / 2 ^ nat (bitlen q)"
      using bp bq by (simp add: power_int_def)
    also have "\<dots> \<le> of_int p / of_int q"
      using lo hi p q by (intro frac_le) simp_all
    finally have "pow2 (?d - 1) \<le> x"
      by (simp only: x)
    moreover from False have "binade x = ?d - 1"
      by (simp add: binade_def pq)
    ultimately show ?thesis
      by simp
  qed
qed

lemma binade_upper:
  assumes "0 < x"
  shows "x < pow2 (binade x + 1)"
proof -
  obtain p q where pq: "quotient_of x = (p, q)"
    by (cases "quotient_of x")
  then have x: "x = of_int p / of_int q" and q: "0 < q"
    by (simp_all add: quotient_of_div quotient_of_denom_pos)
  with assms have p: "0 < p"
    by (simp add: zero_less_divide_iff)
  let ?d = "bitlen p - bitlen q"
  show ?thesis
  proof (cases "pow2 ?d \<le> x")
    case True
    then have b: "binade x = ?d"
      by (simp add: binade_def pq)
    from bitlen_bounds [OF p] have "p < 2 ^ nat (bitlen p)"
      by simp
    then have "(of_int p :: rat) < of_int (2 ^ nat (bitlen p))"
      by (simp only: of_int_less_iff)
    then have hi: "(of_int p :: rat) < 2 ^ nat (bitlen p)"
      by simp
    from bitlen_bounds [OF q] have "2 ^ nat (bitlen q - 1) \<le> q"
      by simp
    then have "(of_int (2 ^ nat (bitlen q - 1)) :: rat) \<le> of_int q"
      by (simp only: of_int_le_iff)
    then have lo: "(2 :: rat) ^ nat (bitlen q - 1) \<le> of_int q"
      by simp
    have bq: "1 \<le> bitlen q"
      using q by (simp add: bitlen_alt_def)
    have bp: "0 \<le> bitlen p"
      by (rule bitlen_nonneg)
    have "of_int p / of_int q < 2 ^ nat (bitlen p) / (2 :: rat) ^ nat (bitlen q - 1)"
      using lo hi p q by (intro frac_less) simp_all
    also have "\<dots> = power_int 2 (bitlen p) / power_int 2 (bitlen q - 1)"
      using bp bq by (simp add: power_int_def)
    also have "\<dots> = power_int 2 (bitlen p - (bitlen q - 1))"
      by (rule power_int_diff [symmetric]) simp
    also have "bitlen p - (bitlen q - 1) = ?d + 1"
      by simp
    finally have "x < pow2 (?d + 1)"
      by (simp only: x pow2_power_int)
    then show ?thesis
      by (simp only: b)
  next
    case False
    then have "binade x = ?d - 1"
      by (simp add: binade_def pq)
    with False show ?thesis
      by simp
  qed
qed

text \<open>
  So \<open>binade\<close> is the exponent of the leading bit, and the scaled value
  \<open>x / pow2 (binade x - 52)\<close> that \<open>double_pos\<close> rounds to an integer lies
  between \<open>2^52\<close> and \<open>2^53\<close>: the result has 53 significant bits.
\<close>

lemma round_ties_even_error: "\<bar>of_int (round_ties_even y) - y\<bar> \<le> 1 / 2"
proof -
  have "of_int \<lfloor>y\<rfloor> \<le> y" and "y < of_int \<lfloor>y\<rfloor> + 1"
    by linarith+
  then show ?thesis
    unfolding round_ties_even_def Let_def by (auto simp: abs_le_iff)
qed

lemma double_pos_error:
  assumes "0 < x"
  shows "\<bar>double_pos x - x\<bar> \<le> x / 2 ^ 53"
proof -
  let ?u = "pow2 (binade x - 52)"
  have u: "0 < ?u" by (rule pow2_pos)
  have "double_pos x - x = (of_int (round_ties_even (x / ?u)) - x / ?u) * ?u"
    using u by (simp add: double_pos_def Let_def algebra_simps)
  then have "\<bar>double_pos x - x\<bar> = \<bar>of_int (round_ties_even (x / ?u)) - x / ?u\<bar> * ?u"
    using u by (simp add: abs_mult)
  also have "\<dots> \<le> 1 / 2 * ?u"
    using round_ties_even_error [of "x / ?u"] u by (intro mult_right_mono) simp_all
  also have "\<dots> = pow2 (binade x) / 2 ^ 53"
    using pow2_shift [of "binade x" 52] by simp
  also have "\<dots> \<le> x / 2 ^ 53"
    using pow2_binade_le [OF assms] by (simp add: divide_right_mono)
  finally show ?thesis .
qed

lemma double_error:
  assumes "0 \<le> x"
  shows "\<bar>double x - x\<bar> \<le> x / 2 ^ 53"
proof (cases "x = 0")
  case True
  then show ?thesis by (simp add: double_def)
next
  case False
  with assms have "0 < x" by simp
  then show ?thesis
    using double_pos_error [of x] by (simp add: double_def)
qed


lemma js_percentage_error:
  assumes "0 \<le> c" and "c \<le> t" and "0 < t"
  shows "\<bar>js_mul (js_div (of_int c) (of_int t)) 100 - 100 * of_int c / of_int t\<bar> \<le> 300 / 2 ^ 53"
proof -
  define x :: rat where "x = of_int c / of_int t"
  define y where "y = double x"
  define z where "z = double (y * 100)"
  define u :: rat where "u = 1 / 2 ^ 53"
  define dy where "dy = x * u"
  define dz where "dz = y * u"
  have u0: "0 \<le> u" and u1: "u \<le> 1"
    by (simp_all add: u_def)
  from assms have x0: "0 \<le> x" and x1: "x \<le> 1"
    by (simp_all add: x_def)
  have dy0: "0 \<le> dy" and dyx: "dy \<le> x" and dyu: "dy \<le> u"
    using x0 x1 u0 u1 by (simp_all add: dy_def mult_left_le mult_left_le_one_le mult_right_le_one_le)
  from double_error [OF x0] have "\<bar>y - x\<bar> \<le> dy"
    by (simp add: y_def dy_def u_def)
  then have ey: "y - x \<le> dy" "x - y \<le> dy"
    by linarith+
  from ey dyx x0 x1 have y0: "0 \<le> y" and y2: "y \<le> 2"
    by linarith+
  from y0 y2 u0 have "y * u \<le> 2 * u"
    by (intro mult_right_mono)
  then have dzu: "dz \<le> 2 * u"
    by (simp add: dz_def)
  from y0 have "0 \<le> y * 100" by simp
  from double_error [OF this] have "\<bar>z - y * 100\<bar> \<le> 100 * dz"
    by (simp add: z_def dz_def u_def)
  then have ez: "z - y * 100 \<le> 100 * dz" "y * 100 - z \<le> 100 * dz"
    by linarith+
  from ey ez dyu dzu have "\<bar>z - 100 * x\<bar> \<le> 300 * u"
    by linarith
  then show ?thesis
    by (simp add: js_mul_def js_div_def z_def y_def x_def u_def)
qed

lemma floor_near_quotient:
  fixes N M :: int and e :: rat
  assumes "0 < M" and "\<bar>e\<bar> < 1 / of_int M"
  shows "N div M - 1 \<le> \<lfloor>of_int N / of_int M + e\<rfloor>"
    and "\<lfloor>of_int N / of_int M + e\<rfloor> \<le> N div M"
    and "N mod M \<noteq> 0 \<Longrightarrow> \<lfloor>of_int N / of_int M + e\<rfloor> = N div M"
proof -
  let ?w = "of_int N / of_int M :: rat"
  have M: "(0 :: rat) < of_int M" using assms(1) by simp
  have "N = M * (N div M) + N mod M" by simp
  then have "(of_int N :: rat) = of_int M * of_int (N div M) + of_int (N mod M)"
    by (metis of_int_add of_int_mult)
  then have w: "?w = of_int (N div M) + of_int (N mod M) / of_int M"
    using M by (simp add: field_simps)
  have r0: "0 \<le> N mod M" and r1: "N mod M \<le> M - 1"
    using assms(1) by simp_all
  from r0 have f0: "(0 :: rat) \<le> of_int (N mod M) / of_int M"
    using M by simp
  from r1 have "(of_int (N mod M) :: rat) \<le> of_int M - 1"
    by (metis of_int_le_iff of_int_diff of_int_1)
  then have f1: "(of_int (N mod M) :: rat) / of_int M \<le> 1 - 1 / of_int M"
    using M by (simp add: field_simps)
  from assms(2) have e: "- (1 / of_int M) < e" "e < 1 / of_int M"
    by (simp_all add: abs_less_iff)
  have inv: "(1 :: rat) / of_int M \<le> 1"
    using assms(1) by simp
  have lo: "of_int (N div M - 1) \<le> ?w + e"
    using w f0 e inv by simp
  have hi: "?w + e < of_int (N div M + 1)"
    using w f1 e by simp
  from lo show "N div M - 1 \<le> \<lfloor>?w + e\<rfloor>"
    by (simp only: le_floor_iff)
  from hi have "\<lfloor>?w + e\<rfloor> < N div M + 1"
    by (simp only: floor_less_iff)
  then show le: "\<lfloor>?w + e\<rfloor> \<le> N div M"
    by simp
  show "\<lfloor>?w + e\<rfloor> = N div M" if "N mod M \<noteq> 0"
  proof -
    from that r0 have "1 \<le> N mod M" by simp
    then have "(1 :: rat) \<le> of_int (N mod M)"
      by (metis of_int_le_iff of_int_1)
    then have "(1 :: rat) / of_int M \<le> of_int (N mod M) / of_int M"
      using M by (simp add: divide_right_mono)
    with w e have "of_int (N div M) \<le> ?w + e"
      by simp
    then have "N div M \<le> \<lfloor>?w + e\<rfloor>"
      by (simp only: le_floor_iff)
    with le show ?thesis by simp
  qed
qed


subsection \<open>The percentages\<close>

lemma js_percentage_close:
  assumes "0 \<le> c" and "c \<le> t" and "0 < t" and "t \<le> 10 ^ 12"
  shows "spec_percentage c t - 1 \<le> Math_round (js_mul (js_div (of_int c) (of_int t)) 100)"
    and "Math_round (js_mul (js_div (of_int c) (of_int t)) 100) \<le> spec_percentage c t"
    and "\<not> half_way c t \<Longrightarrow>
           Math_round (js_mul (js_div (of_int c) (of_int t)) 100) = spec_percentage c t"
proof -
  let ?N = "200 * c + t"
  let ?M = "2 * t"
  define z where "z = js_mul (js_div (of_int c) (of_int t)) 100"
  define e where "e = z - 100 * of_int c / of_int t"
  have M: "0 < ?M" using assms(3) by simp
  have t: "(0 :: rat) < of_int t" using assms(3) by simp
  have w: "(of_int ?N :: rat) / of_int ?M = 100 * of_int c / of_int t + 1 / 2"
    using t by (simp add: field_simps)
  have spec: "spec_percentage c t = ?N div ?M"
  proof -
    have "spec_percentage c t = \<lfloor>(of_int ?N :: rat) / of_int ?M\<rfloor>"
      using assms(3) by (simp only: w) (simp add: spec_percentage_def round_def)
    then show ?thesis
      by (simp only: floor_divide_of_int_eq)
  qed
  have "(of_int ?N :: rat) / of_int ?M + e = z + 1 / 2"
    by (simp only: w) (simp add: e_def)
  then have p: "Math_round z = \<lfloor>(of_int ?N :: rat) / of_int ?M + e\<rfloor>"
    by (simp only: Math_round_def)
  from js_percentage_error [OF assms(1-3)] have "\<bar>e\<bar> \<le> 300 / 2 ^ 53"
    by (simp only: e_def z_def)
  moreover have "(300 :: rat) / 2 ^ 53 < 1 / of_int ?M"
  proof -
    from assms(4) have "600 * t \<le> 600 * 10 ^ 12" by simp
    also have "\<dots> < (2 :: int) ^ 53" by simp
    finally have "(of_int (600 * t) :: rat) < of_int (2 ^ 53)"
      by (simp only: of_int_less_iff)
    then have "(600 :: rat) * of_int t < 2 ^ 53"
      by simp
    with t show ?thesis
      by (simp add: field_simps)
  qed
  ultimately have e: "\<bar>e\<bar> < 1 / of_int ?M"
    by linarith
  from floor_near_quotient [OF M e, of ?N]
  show "spec_percentage c t - 1 \<le> Math_round (js_mul (js_div (of_int c) (of_int t)) 100)"
    and "Math_round (js_mul (js_div (of_int c) (of_int t)) 100) \<le> spec_percentage c t"
    and "\<not> half_way c t \<Longrightarrow>
           Math_round (js_mul (js_div (of_int c) (of_int t)) 100) = spec_percentage c t"
    unfolding spec half_way_def z_def [symmetric] p by simp_all
qed

text \<open>
  C6, as stated, fails: the code evaluates \<open>Math.round((completed / total) * 100)\<close>
  in binary64 arithmetic, which is not the rounded \<open>100 * completed / total\<close>.
  With 23 of 40 lessons completed the exact percentage is 57.5, which rounds to
  58, while \<open>(23 / 40) * 100\<close> evaluates to 57.49999999999999 and the code shows
  57; with 29 of 200 required lessons the exact 14.5 rounds to 15 and the code
  shows 14.
\<close>

theorem percentage_counterexample:
  "totalPercentage \<lparr> totalLessons = 40, totalCompleted = 23, requiredLessons = 200,
                     requiredCompleted = 29, title = ''School: School A'' \<rparr> = 57 \<and>
   spec_percentage 23 40 = 58 \<and>
   requiredPercentage \<lparr> totalLessons = 40, totalCompleted = 23, requiredLessons = 200,
                        requiredCompleted = 29, title = ''School: School A'' \<rparr> = 14 \<and>
   spec_percentage 29 200 = 15"
  by code_simp

text \<open>
  C6, amended.  For every resolver output (or the zero fallback), each percentage
  is 0 whenever its denominator is 0 (indeed whenever it is not positive), so no
  division by zero occurs and no NaN arises; the fallback shows 0 for both.
  Otherwise the percentage is \<open>Math.round((completed / total) * 100)\<close> evaluated in
  binary64 arithmetic: for counts with \<open>0 \<le> completed \<le> total \<le> 10^12\<close> it is
  \<open>round(100 * completed / total)\<close> or one less, and it is exactly
  \<open>round(100 * completed / total)\<close> unless \<open>100 * completed / total\<close> lies
  half-way between two integers.
\<close>

theorem percentage_projection:
  "(totalLessons d \<le> 0 \<longrightarrow> totalPercentage d = 0) \<and>
   (requiredLessons d \<le> 0 \<longrightarrow> requiredPercentage d = 0) \<and>
   totalPercentage (displayData None None) = 0 \<and>
   requiredPercentage (displayData None None) = 0 \<and>
   (0 \<le> totalCompleted d \<and> totalCompleted d \<le> totalLessons d \<and>
    0 < totalLessons d \<and> totalLessons d \<le> 10 ^ 12 \<longrightarrow>
      spec_percentage (totalCompleted d) (totalLessons d) - 1 \<le> totalPercentage d \<and>
      totalPercentage d \<le> spec_percentage (totalCompleted d) (totalLessons d) \<and>
      (\<not> half_way (totalCompleted d) (totalLessons d) \<longrightarrow>
         totalPercentage d = spec_percentage (totalCompleted d) (totalLessons d))) \<and>
   (0 \<le> requiredCompleted d \<and> requiredCompleted d \<le> requiredLessons d \<and>
    0 < requiredLessons d \<and> requiredLessons d \<le> 10 ^ 12 \<longrightarrow>
      spec_percentage (requiredCompleted d) (requiredLessons d) - 1 \<le> requiredPercentage d \<and>
      requiredPercentage d \<le> spec_percentage (requiredCompleted d) (requiredLessons d) \<and>
      (\<not> half_way (requiredCompleted d) (requiredLessons d) \<longrightarrow>
         requiredPercentage d = spec_percentage (requiredCompleted d) (requiredLessons d)))"
proof (intro conjI impI)
  show "totalPercentage (displayData None None) = 0"
    and "requiredPercentage (displayData None None) = 0"
    by (simp_all add: totalPercentage_def requiredPercentage_def displayData_def)
next
  assume "totalLessons d \<le> 0"
  then show "totalPercentage d = 0"
    by (simp add: totalPercentage_def)
next
  assume "requiredLessons d \<le> 0"
  then show "requiredPercentage d = 0"
    by (simp add: requiredPercentage_def)
next
  assume h: "0 \<le> totalCompleted d \<and> totalCompleted d \<le> totalLessons d \<and>
    0 < totalLessons d \<and> totalLessons d \<le> 10 ^ 12"
  then have p: "totalPercentage d =
      Math_round (js_mul (js_div (of_int (totalCompleted d)) (of_int (totalLessons d))) 100)"
    by (simp add: totalPercentage_def)
  from h have a: "0 \<le> totalCompleted d" "totalCompleted d \<le> totalLessons d"
    "0 < totalLessons d" "totalLessons d \<le> 10 ^ 12"
    by simp_all
  show "spec_percentage (totalCompleted d) (totalLessons d) - 1 \<le> totalPercentage d"
    unfolding p by (rule js_percentage_close(1) [OF a])
  show "totalPercentage d \<le> spec_percentage (totalCompleted d) (totalLessons d)"
    unfolding p by (rule js_percentage_close(2) [OF a])
  show "totalPercentage d = spec_percentage (totalCompleted d) (totalLessons d)"
    if "\<not> half_way (totalCompleted d) (totalLessons d)"
    unfolding p using that by (rule js_percentage_close(3) [OF a])
next
  assume h: "0 \<le> requiredCompleted d \<and> requiredCompleted d \<le> requiredLessons d \<and>
    0 < requiredLessons d \<and> requiredLessons d \<le> 10 ^ 12"
  then have p: "requiredPercentage d =
      Math_round
        (js_mul (js_div (of_int (requiredCompleted d)) (of_int (requiredLessons d))) 100)"
    by (simp add: requiredPercentage_def)
  from h have a: "0 \<le> requiredCompleted d" "requiredCompleted d \<le> requiredLessons d"
    "0 < requiredLessons d" "requiredLessons d \<le> 10 ^ 12"
    by simp_all
  show "spec_percentage (requiredCompleted d) (requiredLessons d) - 1 \<le> requiredPercentage d"
    unfolding p by (rule js_percentage_close(1) [OF a])
  show "requiredPercentage d \<le> spec_percentage (requiredCompleted d) (requiredLessons d)"
    unfolding p by (rule js_percentage_close(2) [OF a])
  show "requiredPercentage d = spec_percentage (requiredCompleted d) (requiredLessons d)"
    if "\<not> half_way (requiredCompleted d) (requiredLessons d)"
    unfolding p using that by (rule js_percentage_close(3) [OF a])
qed

text \<open>
  30 of 40 lessons and no required lesson: the required percentage is 0, and the
  total percentage, away from a tie, is the exactly rounded 75.
\<close>

theorem percentage_projection_witness:
  "requiredLessons \<lparr> totalLessons = 40, totalCompleted = 30, requiredLessons = 0,
                      requiredCompleted = 0, title = ''School: School A'' \<rparr> \<le> 0 \<and>
   requiredPercentage \<lparr> totalLessons = 40, totalCompleted = 30, requiredLessons = 0,
                        requiredCompleted = 0, title = ''School: School A'' \<rparr> = 0 \<and>
   (0 :: int) \<le> 30 \<and> (30 :: int) \<le> 40 \<and> (0 :: int) < 40 \<and> (40 :: int) \<le> 10 ^ 12 \<and>
   \<not> half_way 30 40 \<and>
   spec_percentage 30 40 = 75 \<and>
   totalPercentage \<lparr> totalLessons = 40, totalCompleted = 30, requiredLessons = 0,
                     requiredCompleted = 0, title = ''School: School A'' \<rparr> = 75 \<and>
   totalLessons (displayData None None) \<le> 0 \<and>
   totalPercentage (displayData None None) = 0"
proof -
  let ?d = "\<lparr> totalLessons = 40, totalCompleted = 30, requiredLessons = 0,
              requiredCompleted = 0, title = ''School: School A'' \<rparr>"
  have tie: "\<not> half_way 30 40"
    by (simp add: half_way_def)
  have spec: "spec_percentage 30 40 = 75"
    by code_simp
  have none: "totalLessons (displayData None None) \<le> 0"
    by (simp add: displayData_def)
  from percentage_projection [of ?d] percentage_projection [of "displayData None None"]
    tie spec none
  show ?thesis
    by simp
qed

end
